theory Spec2Isabelle
  imports Main "HOL-Library.Code_Target_Nat"
begin

section \<open>Character classes of the "C" locale\<close>

text \<open>
  The parser classifies bytes with \<^verbatim>\<open>std::isalpha(c, std::locale("C"))\<close> and friends.
  In the "C" locale only ASCII bytes are classified; every byte above 0x7F is in no class.
\<close>

definition isdigit :: "char \<Rightarrow> bool" where
  "isdigit c = (c \<in> set ''0123456789'')"

definition isupper :: "char \<Rightarrow> bool" where
  "isupper c = (c \<in> set ''ABCDEFGHIJKLMNOPQRSTUVWXYZ'')"

definition islower :: "char \<Rightarrow> bool" where
  "islower c = (c \<in> set ''abcdefghijklmnopqrstuvwxyz'')"

definition isalpha :: "char \<Rightarrow> bool" where
  "isalpha c = (isupper c \<or> islower c)"

definition isalnum :: "char \<Rightarrow> bool" where
  "isalnum c = (isalpha c \<or> isdigit c)"

definition isxdigit :: "char \<Rightarrow> bool" where
  "isxdigit c = (c \<in> set ''0123456789abcdefABCDEF'')"

definition isspace :: "char \<Rightarrow> bool" where
  "isspace c = (c \<in> set [CHR '' '', CHR 0x09, CHR 0x0A, CHR 0x0B, CHR 0x0C, CHR 0x0D])"

definition tolower :: "char \<Rightarrow> char" where
  "tolower c =
     (case map_of (zip ''ABCDEFGHIJKLMNOPQRSTUVWXYZ'' ''abcdefghijklmnopqrstuvwxyz'') c of
        Some l \<Rightarrow> l
      | None \<Rightarrow> c)"

text \<open>\<^verbatim>\<open>is_in(c, view)\<close>: \<^verbatim>\<open>std::find\<close> over the view.\<close>

definition is_in :: "char \<Rightarrow> string \<Rightarrow> bool" where
  "is_in c view = (c \<in> set view)"

section \<open>The C library's number conversions\<close>

text \<open>
  \<^verbatim>\<open>strtoul\<close>, \<^verbatim>\<open>std::stoul\<close> and \<^verbatim>\<open>atoi\<close> belong to the C and C++ standard libraries.
  They are written out here after the C standard (7.22.1.4): leading white space is
  skipped, one sign is accepted, base 16 accepts a \<^verbatim>\<open>0x\<close> prefix, and the conversion takes
  the longest run of digits of the base and stops at the first other character.
  \<^verbatim>\<open>unsigned long\<close> has 64 bits (LP64; the source names libc++'s \<^verbatim>\<open>std::__1\<close>).
\<close>

fun index_of :: "char \<Rightarrow> string \<Rightarrow> nat option" where
  "index_of c [] = None"
| "index_of c (d # ds) = (if c = d then Some 0 else map_option Suc (index_of c ds))"

definition digit_value :: "char \<Rightarrow> nat option" where
  "digit_value c = index_of (tolower c) ''0123456789abcdefghijklmnopqrstuvwxyz''"

definition is_radix_digit :: "nat \<Rightarrow> char \<Rightarrow> bool" where
  "is_radix_digit R c = (case digit_value c of None \<Rightarrow> False | Some v \<Rightarrow> v < R)"

definition digits_value :: "nat \<Rightarrow> string \<Rightarrow> nat" where
  "digits_value R ds = foldl (\<lambda>acc c. acc * R + the (digit_value c)) 0 ds"

definition ULONG_MAX :: nat where
  "ULONG_MAX = 2 ^ 64 - 1"

record strtoul_result =
  ul_value :: nat
  ul_consumed :: nat
  ul_erange :: bool

definition has_hex_prefix :: "string \<Rightarrow> bool" where
  "has_hex_prefix s =
     (case s of
        z # x # h # _ \<Rightarrow> z = CHR ''0'' \<and> tolower x = CHR ''x'' \<and> is_radix_digit 16 h
      | _ \<Rightarrow> False)"

definition strtoul :: "string \<Rightarrow> nat \<Rightarrow> strtoul_result" where
  "strtoul str R =
     (let ws = takeWhile isspace str;
          s1 = dropWhile isspace str;
          neg = (case s1 of c # _ \<Rightarrow> c = CHR ''-'' | [] \<Rightarrow> False);
          sign_len = (case s1 of c # _ \<Rightarrow> if c = CHR ''-'' \<or> c = CHR ''+'' then 1 else 0 | [] \<Rightarrow> 0);
          s2 = drop sign_len s1;
          prefix_len = (if R = 16 \<and> has_hex_prefix s2 then 2 else 0);
          s3 = drop prefix_len s2;
          ds = takeWhile (is_radix_digit R) s3;
          v = digits_value R ds
      in if ds = [] then \<lparr>ul_value = 0, ul_consumed = 0, ul_erange = False\<rparr>
         else if ULONG_MAX < v
           then \<lparr>ul_value = ULONG_MAX,
                 ul_consumed = length ws + sign_len + prefix_len + length ds, ul_erange = True\<rparr>
         else \<lparr>ul_value = (if neg then (2 ^ 64 - v) mod 2 ^ 64 else v),
               ul_consumed = length ws + sign_len + prefix_len + length ds, ul_erange = False\<rparr>)"

text \<open>
  \<^verbatim>\<open>std::stoul(str, nullptr, R)\<close> throws \<^verbatim>\<open>std::invalid_argument\<close> when nothing was
  converted and \<^verbatim>\<open>std::out_of_range\<close> on \<^verbatim>\<open>ERANGE\<close>; \<open>None\<close> is the exception. Characters
  after the converted digits are ignored: the position argument is null.
\<close>

definition stoul :: "string \<Rightarrow> nat \<Rightarrow> nat option" where
  "stoul str R =
     (let r = strtoul str R
      in if ul_consumed r = 0 then None else if ul_erange r then None else Some (ul_value r))"

text \<open>\<^verbatim>\<open>atoi\<close>: the decimal conversion as a signed value.\<close>

definition atoi :: "string \<Rightarrow> int" where
  "atoi str =
     (let s1 = dropWhile isspace str;
          neg = (case s1 of c # _ \<Rightarrow> c = CHR ''-'' | [] \<Rightarrow> False);
          sign_len = (case s1 of c # _ \<Rightarrow> if c = CHR ''-'' \<or> c = CHR ''+'' then 1 else 0 | [] \<Rightarrow> 0);
          v = int (digits_value 10 (takeWhile (is_radix_digit 10) (drop sign_len s1)))
      in if neg then - v else v)"

text \<open>Decimal output of an unsigned number (\<^verbatim>\<open>std::to_string\<close>).\<close>

definition digit_char :: "nat \<Rightarrow> char" where
  "digit_char d = ''0123456789'' ! d"

function to_decimal :: "nat \<Rightarrow> string" where
  "to_decimal n = (if n < 10 then [digit_char n] else to_decimal (n div 10) @ [digit_char (n mod 10)])"
  by pat_completeness auto
termination
  by (relation "measure id") auto

declare to_decimal.simps [simp del]

section \<open>IPv4 numeric parser\<close>

text \<open>
  \<^verbatim>\<open>parse_ipv4_number\<close> (url_parser_context.cpp, lines 253-278). The reference parameter
  \<^verbatim>\<open>validation_error_flag\<close> is never written by the function and is left out.
\<close>

definition parse_ipv4_number :: "string \<Rightarrow> nat option" where
  "parse_ipv4_number input =
     (let (input', R) =
            (if 2 \<le> length input \<and> input ! 0 = CHR ''0'' \<and> tolower (input ! 1) = CHR ''x''
               then (drop 2 input, 16)
             else if 2 \<le> length input \<and> input ! 0 = CHR ''0''
               then (drop 1 input, 8)
             else (input, 10::nat))
      in if input' = [] then Some 0 else stoul input' R)"

text \<open>The first loop of \<^verbatim>\<open>parse_ipv4_address\<close> (lines 283-292): split at every dot.\<close>

definition split_parts :: "string \<Rightarrow> string list" where
  "split_parts input =
     foldl (\<lambda>parts ch. if ch = CHR ''.'' then parts @ [[]]
                        else butlast parts @ [last parts @ [ch]]) [[]] input"

text \<open>
  The second loop (lines 307-318): \<open>None\<close> is the early \<^verbatim>\<open>return input.to_string()\<close>, taken
  at the first part that is empty or that \<^verbatim>\<open>parse_ipv4_number\<close> rejects.
\<close>

fun parse_parts :: "string list \<Rightarrow> nat list option" where
  "parse_parts [] = Some []"
| "parse_parts (part # rest) =
     (if part = [] then None
      else case parse_ipv4_number part of
             None \<Rightarrow> None
           | Some number \<Rightarrow>
               (case parse_parts rest of None \<Rightarrow> None | Some numbers \<Rightarrow> Some (number # numbers)))"

text \<open>
  The third loop (lines 353-357). \<^verbatim>\<open>std::pow(256, 3 - counter)\<close> is a double, exact for
  these powers; the sum stays below \<open>2 ^ 32\<close> once the range checks have passed.
\<close>

fun ipv4_accumulate :: "nat \<Rightarrow> nat \<Rightarrow> nat list \<Rightarrow> nat" where
  "ipv4_accumulate ipv4 counter [] = ipv4"
| "ipv4_accumulate ipv4 counter (number # rest) =
     ipv4_accumulate (ipv4 + number * 256 ^ (3 - counter)) (counter + 1) rest"

text \<open>
  Modelled from the spec: \<^verbatim>\<open>ipv4_address::to_string\<close> (the class is declared in a header that
  is not among the sources). Spec 4.2: "Emit as four dotted decimals (network byte order)."
\<close>

definition ipv4_to_string :: "nat \<Rightarrow> string" where
  "ipv4_to_string a =
     to_decimal (a div 2 ^ 24 mod 256) @ ''.'' @ to_decimal (a div 2 ^ 16 mod 256) @ ''.'' @
     to_decimal (a div 2 ^ 8 mod 256) @ ''.'' @ to_decimal (a mod 256)"

text \<open>
  Lines 324-359, from the list \<^verbatim>\<open>numbers\<close> on. \<open>None\<close> is \<^verbatim>\<open>nullopt\<close>: the host is rejected.
  The list is never empty here (\<^verbatim>\<open>parts\<close> always holds one part at least); the first
  branch stands for the undefined \<^verbatim>\<open>--numbers_last_but_one\<close> on an empty vector.
\<close>

definition ipv4_from_numbers :: "nat list \<Rightarrow> string option" where
  "ipv4_from_numbers numbers =
     (if numbers = [] then None
      else if list_ex (\<lambda>number. 255 < number) (butlast numbers) then None
      else if 256 ^ (5 - length numbers) \<le> last numbers then None
      else Some (ipv4_to_string (ipv4_accumulate (last numbers) 0 (butlast numbers))))"

text \<open>
  \<^verbatim>\<open>parse_ipv4_address\<close> (lines 280-360). \<open>Some input\<close> is the fall-back to a domain
  string, \<open>Some\<close> of a dotted quad is an IPv4 address, \<open>None\<close> is failure.
\<close>

definition parse_ipv4_address :: "string \<Rightarrow> string option" where
  "parse_ipv4_address input =
     (let parts0 = split_parts input;
          parts = (if last parts0 = [] \<and> 1 < length parts0 then butlast parts0 else parts0)
      in if 4 < length parts then Some input
         else case parse_parts parts of
                None \<Rightarrow> Some input
              | Some numbers \<Rightarrow> ipv4_from_numbers numbers)"

section \<open>Scheme registry\<close>

text \<open>
  Modelled from the spec: \<^verbatim>\<open>details::is_special\<close> and \<^verbatim>\<open>details::is_default_port\<close>
  (url_schemes.hpp is not among the sources). Spec 3: "Static table:
  {ftp->21, file->-, http->80, https->443, ws->80, wss->443}. is_special(scheme) is set
  membership; default_port(scheme) returns the mapped value or none."
\<close>

definition scheme_table :: "(string \<times> nat option) list" where
  "scheme_table =
     [(''ftp'', Some 21), (''file'', None), (''http'', Some 80), (''https'', Some 443),
      (''ws'', Some 80), (''wss'', Some 443)]"

definition is_special :: "string \<Rightarrow> bool" where
  "is_special s = (s \<in> set (map fst scheme_table))"

definition default_port :: "string \<Rightarrow> nat option" where
  "default_port s = (case map_of scheme_table s of Some p \<Rightarrow> p | None \<Rightarrow> None)"

definition is_default_port :: "string \<Rightarrow> int \<Rightarrow> bool" where
  "is_default_port s p = (case default_port s of Some d \<Rightarrow> int d = p | None \<Rightarrow> False)"

section \<open>Percent codec\<close>

text \<open>
  Modelled from the spec: \<^verbatim>\<open>details::pct_encode_char\<close> and \<^verbatim>\<open>details::pct_decode\<close>
  (encode.hpp and decode.hpp are not among the sources). Spec 4.1: "If b < 0x20 or
  b > 0x7E, always emit %XX (uppercase hex). Else if b is in escape_set (a caller-supplied
  set of ASCII characters), emit %XX. Else emit b." and "Scans left-to-right; on % followed
  by two hex digits, emits the decoded byte; on % not so followed, emits % literally and
  flags a validation error (never aborts decode)." A call without an escape set passes
  the empty one.
\<close>

definition hex_digit_upper :: "nat \<Rightarrow> char" where
  "hex_digit_upper d = ''0123456789ABCDEF'' ! d"

definition pct_escape :: "char \<Rightarrow> string" where
  "pct_escape c =
     [CHR ''%'', hex_digit_upper ((of_char c :: nat) div 16), hex_digit_upper ((of_char c :: nat) mod 16)]"

definition pct_encode_char :: "char \<Rightarrow> string \<Rightarrow> string" where
  "pct_encode_char c includes =
     (if (of_char c :: nat) < 0x20 \<or> 0x7E < (of_char c :: nat) then pct_escape c
      else if is_in c includes then pct_escape c
      else [c])"

text \<open>\<^verbatim>\<open>hex_to_dec\<close> (lines 98-108); the source asserts that \<open>c\<close> is a hex digit.\<close>

definition hex_to_dec :: "char \<Rightarrow> nat" where
  "hex_to_dec c =
     (let c_lower = tolower c
      in if isdigit c_lower then of_char c_lower - of_char CHR ''0''
         else of_char c_lower - of_char CHR ''a'' + 10)"

fun pct_decode :: "string \<Rightarrow> string" where
  "pct_decode (p # h # l # rest) =
     (if p = CHR ''%'' \<and> isxdigit h \<and> isxdigit l
        then char_of (hex_to_dec h * 16 + hex_to_dec l) # pct_decode rest
      else p # pct_decode (h # l # rest))"
| "pct_decode s = s"

section \<open>Lookahead on the input\<close>

text \<open>
  An iterator range \<^verbatim>\<open>[first, last)\<close> is the list of its bytes. \<^verbatim>\<open>remaining_starts_with\<close>
  (lines 74-96) steps past \<^verbatim>\<open>first\<close> and then dereferences before it compares with
  \<^verbatim>\<open>last\<close>, so it can read the byte stored behind the range: \<open>past\<close> is that byte (the
  terminator of the \<^verbatim>\<open>std::string\<close> under the view, or the byte that follows a sub-view).
  \<open>None\<close> is a read further out than that.
\<close>

fun remaining_loop :: "char \<Rightarrow> string \<Rightarrow> string \<Rightarrow> bool option" where
  "remaining_loop past rng [] = Some True"
| "remaining_loop past [] (ch # chars) =
     (if past \<noteq> ch then Some False else if chars = [] then Some True else None)"
| "remaining_loop past (b # rng) (ch # chars) =
     (if b \<noteq> ch then Some False
      else if rng = [] then Some (chars = [])
      else remaining_loop past rng chars)"

definition remaining_starts_with :: "char \<Rightarrow> string \<Rightarrow> string \<Rightarrow> bool option" where
  "remaining_starts_with past rng chars =
     (case rng of
        [] \<Rightarrow> (if chars = [] then Some True else None)
      | _ # rest \<Rightarrow> remaining_loop past rest chars)"

text \<open>\<^verbatim>\<open>is_windows_drive_letter\<close> (lines 455-473), on a range and on a segment.\<close>

definition is_windows_drive_letter :: "string \<Rightarrow> bool" where
  "is_windows_drive_letter rng =
     (if length rng < 2 then False
      else if \<not> isalpha (rng ! 0) then False
      else rng ! 1 = CHR '':'' \<or> rng ! 1 = CHR ''|'')"

text \<open>\<^verbatim>\<open>is_pct_encoded\<close> (lines 483-505).\<close>

definition is_pct_encoded :: "string \<Rightarrow> bool" where
  "is_pct_encoded rng =
     (case rng of
        p # h # l # _ \<Rightarrow> p = CHR ''%'' \<and> isxdigit h \<and> isxdigit l
      | _ \<Rightarrow> False)"

section \<open>IPv6 textual parser\<close>

text \<open>
  \<^verbatim>\<open>parse_ipv6_address\<close> (lines 110-251). Its only caller passes the inside of a bracketed
  buffer, so the byte behind the view is the closing bracket: \<open>peek\<close> is \<^verbatim>\<open>*it\<close>, also
  where the source reads it with \<^verbatim>\<open>it == last\<close>.
\<close>

definition peek :: "string \<Rightarrow> char" where
  "peek rng = (case rng of [] \<Rightarrow> CHR '']'' | c # _ \<Rightarrow> c)"

text \<open>The loop that reads at most four hex digits (lines 151-155): value, length, rest.\<close>

fun read_hex :: "nat \<Rightarrow> nat \<Rightarrow> string \<Rightarrow> nat \<times> nat \<times> string" where
  "read_hex v len [] = (v, len, [])"
| "read_hex v len (c # rest) =
     (if len < 4 \<and> isxdigit c then read_hex (v * 0x10 + hex_to_dec c) (len + 1) rest
      else (v, len, c # rest))"

text \<open>The digits of one number of the embedded IPv4 form (lines 184-207).\<close>

fun read_ipv4_piece :: "nat option \<Rightarrow> string \<Rightarrow> (nat \<times> string) option" where
  "read_ipv4_piece ipv4_piece [] =
     (case ipv4_piece of None \<Rightarrow> None | Some p \<Rightarrow> Some (p, []))"
| "read_ipv4_piece ipv4_piece (c # rest) =
     (if isdigit c then
        (let number = (of_char c :: nat) - of_char CHR ''0''
         in case ipv4_piece of
              None \<Rightarrow> if 255 < number then None else read_ipv4_piece (Some number) rest
            | Some p \<Rightarrow>
                if p = 0 then None
                else if 255 < p * 10 + number then None
                else read_ipv4_piece (Some (p * 10 + number)) rest)
      else (case ipv4_piece of None \<Rightarrow> None | Some p \<Rightarrow> Some (p, c # rest)))"

definition ipv4_piece_step ::
  "nat list \<Rightarrow> nat \<Rightarrow> nat \<Rightarrow> string \<Rightarrow> (nat list \<times> nat \<times> string) option" where
  "ipv4_piece_step address piece_index numbers_seen rng =
     (if \<not> isdigit (peek rng) then None
      else case read_ipv4_piece None rng of
             None \<Rightarrow> None
           | Some (p, rest) \<Rightarrow>
               Some (address[piece_index := address ! piece_index * 0x100 + p],
                     (if numbers_seen + 1 = 2 \<or> numbers_seen + 1 = 4 then piece_index + 1
                      else piece_index),
                     rest))"

function ipv4_in_ipv6 ::
  "nat \<Rightarrow> nat list \<Rightarrow> nat \<Rightarrow> string \<Rightarrow> (nat list \<times> nat) option" where
  "ipv4_in_ipv6 numbers_seen address piece_index rng =
     (if rng = [] then (if numbers_seen \<noteq> 4 then None else Some (address, piece_index))
      else if 0 < numbers_seen then
        (if peek rng = CHR ''.'' \<and> numbers_seen < 4 then
           (case ipv4_piece_step address piece_index numbers_seen (tl rng) of
              None \<Rightarrow> None
            | Some (a, p, rest) \<Rightarrow> ipv4_in_ipv6 (numbers_seen + 1) a p rest)
         else None)
      else
        (case ipv4_piece_step address piece_index numbers_seen rng of
           None \<Rightarrow> None
         | Some (a, p, rest) \<Rightarrow> ipv4_in_ipv6 (numbers_seen + 1) a p rest))"
  by pat_completeness auto
termination
  by (relation "measure (\<lambda>(numbers_seen, address, piece_index, rng). 4 - numbers_seen)") auto

declare ipv4_in_ipv6.simps [simp del]

lemma read_hex_length: "read_hex v len rng = (v', len', rest) \<Longrightarrow> length rest \<le> length rng"
  by (induction v len rng rule: read_hex.induct) (auto split: if_splits)

text \<open>
  The main loop (lines 130-235): the pieces, \<^verbatim>\<open>piece_index\<close> and \<^verbatim>\<open>compress\<close> when the
  loop is left, \<open>None\<close> for \<^verbatim>\<open>return nullopt\<close>. When the hex digits end the view, the piece
  is stored and the loop condition ends the loop.
\<close>

function ipv6_loop ::
  "nat list \<Rightarrow> nat \<Rightarrow> nat option \<Rightarrow> string \<Rightarrow> (nat list \<times> nat \<times> nat option) option" where
  "ipv6_loop address piece_index compress rng =
     (if rng = [] then Some (address, piece_index, compress)
      else if piece_index = 8 then None
      else if peek rng = CHR '':'' then
        (if compress \<noteq> None then None
         else ipv6_loop address (piece_index + 1) (Some (piece_index + 1)) (tl rng))
      else
        (case read_hex 0 0 rng of
           (v, len, rest) \<Rightarrow>
             if peek rest = CHR ''.'' then
               (if len = 0 then None
                else if 6 < piece_index then None
                else case ipv4_in_ipv6 0 address piece_index rng of
                       None \<Rightarrow> None
                     | Some (a, p) \<Rightarrow> Some (a, p, compress))
             else if peek rest = CHR '':'' then
               (if tl rest = [] then None
                else ipv6_loop (address[piece_index := v]) (piece_index + 1) compress (tl rest))
             else if rest \<noteq> [] then None
             else Some (address[piece_index := v], piece_index + 1, compress)))"
  by pat_completeness auto
termination
proof (relation "measure (\<lambda>(address, piece_index, compress, rng). length rng)", goal_cases)
  case 1
  show ?case by simp
next
  case (2 address piece_index compress rng)
  then show ?case by (cases rng) auto
next
  case (3 address piece_index compress rng v y len rest)
  then have "read_hex 0 0 rng = (v, len, rest)" by simp
  then have "length rest \<le> length rng" by (rule read_hex_length)
  moreover from 3 have "rest \<noteq> []" by (auto simp: peek_def)
  ultimately show ?case by (cases rest) auto
qed

declare ipv6_loop.simps [simp del]

text \<open>The loop that moves the pieces behind the compression to the end (lines 237-244).\<close>

fun swap_loop :: "nat list \<Rightarrow> nat \<Rightarrow> nat \<Rightarrow> nat \<Rightarrow> nat list" where
  "swap_loop address piece_index 0 compress = address"
| "swap_loop address piece_index (Suc swaps) compress =
     (if piece_index = 0 then address
      else swap_loop
             (address[piece_index := address ! (compress + swaps),
                      compress + swaps := address ! piece_index])
             (piece_index - 1) swaps compress)"

definition parse_ipv6_address :: "string \<Rightarrow> nat list option" where
  "parse_ipv6_address rng =
     (let address = replicate 8 (0::nat);
          looped =
            (if peek rng = CHR '':'' then
               (case remaining_starts_with (CHR '']'') rng '':'' of
                  Some True \<Rightarrow> ipv6_loop address 1 (Some 1) (drop 2 rng)
                | _ \<Rightarrow> None)
             else ipv6_loop address 0 None rng)
      in case looped of
           None \<Rightarrow> None
         | Some (a, piece_index, compress) \<Rightarrow>
             (case compress of
                Some c \<Rightarrow> Some (swap_loop a 7 (piece_index - c) c)
              | None \<Rightarrow> if piece_index \<noteq> 8 then None else Some a))"

text \<open>
  Modelled from the spec: \<^verbatim>\<open>ipv6_address::to_string\<close> (the class is declared in a header that
  is not among the sources). Spec 4.3: "Serialization chooses the longest run of zero
  pieces (length >= 2) for :: compression; ties broken toward the leftmost; pieces printed
  as lowercase hex with no leading zeros."
\<close>

definition hex_digit_lower :: "nat \<Rightarrow> char" where
  "hex_digit_lower d = ''0123456789abcdef'' ! d"

function to_hex :: "nat \<Rightarrow> string" where
  "to_hex n = (if n < 16 then [hex_digit_lower n] else to_hex (n div 16) @ [hex_digit_lower (n mod 16)])"
  by pat_completeness auto
termination
  by (relation "measure id") auto

declare to_hex.simps [simp del]

definition zero_run :: "nat list \<Rightarrow> nat \<Rightarrow> nat" where
  "zero_run pieces i = length (takeWhile (\<lambda>p. p = 0) (drop i pieces))"

definition longest_zero_run :: "nat list \<Rightarrow> nat \<times> nat" where
  "longest_zero_run pieces =
     foldl (\<lambda>(start, len) i. if len < zero_run pieces i then (i, zero_run pieces i) else (start, len))
       (0, 0) [0..<length pieces]"

fun join :: "string \<Rightarrow> string list \<Rightarrow> string" where
  "join sep [] = []"
| "join sep [x] = x"
| "join sep (x # y # rest) = x @ sep @ join sep (y # rest)"

definition ipv6_to_string :: "nat list \<Rightarrow> string" where
  "ipv6_to_string pieces =
     (let (start, len) = longest_zero_run pieces
      in if 2 \<le> len
           then join '':'' (map to_hex (take start pieces)) @ ''::'' @
                join '':'' (map to_hex (drop (start + len) pieces))
         else join '':'' (map to_hex pieces))"

section \<open>Host parser\<close>

text \<open>\<^verbatim>\<open>is_forbidden_host_point\<close> (lines 68-72); \<^verbatim>\<open>sizeof\<close> counts the terminator.\<close>

definition is_forbidden_host_point :: "char \<Rightarrow> bool" where
  "is_forbidden_host_point c =
     (c \<in> set ([CHR 0x00, CHR 0x09, CHR 0x0A, CHR 0x0D] @ '' #%/:?@['' @ [CHR 0x5C] @ '']'' @ [CHR 0x00]))"

text \<open>\<^verbatim>\<open>parse_opaque_host\<close> (lines 362-381).\<close>

definition parse_opaque_host :: "string \<Rightarrow> string option" where
  "parse_opaque_host rng =
     (if list_ex (\<lambda>c. c \<in> set ([CHR 0x00, CHR 0x09, CHR 0x0A, CHR 0x0D] @ '' #/:?@['' @ [CHR 0x5C] @ '']'' @ [CHR 0x00])) rng
        then None
      else Some (concat (map (\<lambda>c. pct_encode_char c []) rng)))"

text \<open>\<^verbatim>\<open>domain_to_ascii\<close> (lines 383-392).\<close>

definition domain_to_ascii :: "string \<Rightarrow> string" where
  "domain_to_ascii d = map tolower d"

text \<open>
  \<^verbatim>\<open>parse_host\<close> (lines 394-437). On an empty view \<^verbatim>\<open>input.front()\<close> reads the terminator
  of the buffer, which is not a bracket. The modelled \<open>pct_decode\<close> never throws, so the
  \<^verbatim>\<open>catch\<close> branch has no counterpart.
\<close>

definition parse_host :: "string \<Rightarrow> bool \<Rightarrow> string option" where
  "parse_host rng is_not_special =
     (if rng \<noteq> [] \<and> hd rng = CHR ''['' then
        (if last rng \<noteq> CHR '']'' then None
         else case parse_ipv6_address (butlast (tl rng)) of
                Some address \<Rightarrow> Some (ipv6_to_string address)
              | None \<Rightarrow> None)
      else if is_not_special then parse_opaque_host rng
      else
        (let domain = pct_decode rng;
             ascii_domain = domain_to_ascii domain
         in if list_ex is_forbidden_host_point ascii_domain then None
            else parse_ipv4_address ascii_domain))"

section \<open>URL record and parser context\<close>

text \<open>
  The record is the \<^verbatim>\<open>url_record\<close> whose fields the handlers assign. A default-constructed
  record has empty strings, no host, port, query or fragment, and an empty path.
\<close>

record url_record =
  scheme :: string
  username :: string
  password :: string
  host :: "string option"
  port :: "nat option"
  path :: "string list"
  query :: "string option"
  fragment :: "string option"
  cannot_be_a_base_url :: bool

definition empty_url_record :: url_record where
  "empty_url_record =
     \<lparr>scheme = [], username = [], password = [], host = None, port = None, path = [],
      query = None, fragment = None, cannot_be_a_base_url = False\<rparr>"

text \<open>
  Modelled from the spec: \<^verbatim>\<open>url_record::is_special\<close> and
  \<^verbatim>\<open>url_record::includes_credentials\<close> (the record's header is not among the sources).
  Spec 3: the URL is special when its scheme is in the special set, and
  "includes_credentials = !username.empty() or !password.empty()".
\<close>

definition url_is_special :: "url_record \<Rightarrow> bool" where
  "url_is_special u = is_special (scheme u)"

definition includes_credentials :: "url_record \<Rightarrow> bool" where
  "includes_credentials u = (username u \<noteq> [] \<or> password u \<noteq> [])"

datatype url_state =
    Scheme_start | Scheme | No_scheme | Special_relative_or_authority | Path_or_authority
  | Relative | Relative_slash | Special_authority_slashes | Special_authority_ignore_slashes
  | Authority | Host | Hostname | Port | File | File_slash | File_host | Path_start | Path
  | Cannot_be_a_base_url_path | Query | Fragment

datatype url_parse_action = Increment | Continue | Success | Fail

text \<open>
  The context of url_parser_context.cpp. \<open>view\<close> is the sanitized input and \<open>it\<close> the
  iterator, kept as an index that may step one before the first byte.
\<close>

record url_parser_context =
  view :: string
  it :: int
  base :: "url_record option"
  url :: url_record
  state :: url_state
  state_override :: "url_state option"
  buffer :: string
  at_flag :: bool
  square_braces_flag :: bool
  password_token_seen_flag :: bool
  validation_error :: bool

subsection \<open>Input sanitization (lines 27-66)\<close>

text \<open>
  \<^verbatim>\<open>is_whitespace\<close> is true of the bytes that are kept: it negates the test. The array
  \<^verbatim>\<open>whitespace\<close> is taken with \<^verbatim>\<open>sizeof\<close>, terminator included.
\<close>

definition is_whitespace :: "char \<Rightarrow> bool" where
  "is_whitespace ch =
     (\<not> (isspace ch \<or> is_in ch [CHR 0x00, CHR 0x1B, CHR 0x04, CHR 0x12, CHR 0x1F, CHR 0x00]))"

definition remove_leading_whitespace :: "string \<Rightarrow> string \<times> bool" where
  "remove_leading_whitespace s =
     (let t = dropWhile (\<lambda>ch. \<not> is_whitespace ch) s in (t, length t = length s))"

definition remove_trailing_whitespace :: "string \<Rightarrow> string \<times> bool" where
  "remove_trailing_whitespace s =
     (let t = rev (dropWhile (\<lambda>ch. \<not> is_whitespace ch) (rev s)) in (t, length t = length s))"

definition remove_tabs_and_newlines :: "string \<Rightarrow> string \<times> bool" where
  "remove_tabs_and_newlines s =
     (let t = filter (\<lambda>ch. \<not> is_in ch [CHR 0x09, CHR 0x0D, CHR 0x0A]) s
      in (t, length t = length s))"

text \<open>The constructor (lines 538-559).\<close>

definition url_parser_context_init ::
  "string \<Rightarrow> url_record option \<Rightarrow> url_record option \<Rightarrow> url_state option \<Rightarrow> url_parser_context" where
  "url_parser_context_init s b u override =
     (let (s1, ok1) = remove_leading_whitespace s;
          (s2, ok2) = remove_trailing_whitespace s1;
          (s3, ok3) = remove_tabs_and_newlines s2
      in \<lparr>view = s3, it = 0, base = b,
          url = (case u of Some r \<Rightarrow> r | None \<Rightarrow> empty_url_record),
          state = (case override of Some st \<Rightarrow> st | None \<Rightarrow> Scheme_start),
          state_override = override, buffer = [], at_flag = False, square_braces_flag = False,
          password_token_seen_flag = False,
          validation_error = (\<not> (ok1 \<and> ok2 \<and> ok3))\<rparr>)"

subsection \<open>Iterator operations\<close>

text \<open>
  Modelled from the spec: \<^verbatim>\<open>is_eof\<close>, \<^verbatim>\<open>increment\<close>, \<^verbatim>\<open>decrement\<close>, \<^verbatim>\<open>reset\<close> and
  \<^verbatim>\<open>restart_from_buffer\<close> (url_parser_context.hpp is not among the sources). Spec 4.6.2:
  EOF is \<^verbatim>\<open>it == end\<close>, increment advances \<^verbatim>\<open>it\<close> by one, "reset() rewinds it to the
  start"; spec 4.6.3, authority: "rewind input to start of buffer". The handler that
  rewinds returns \<^verbatim>\<open>increment\<close>, so the rewind stops one byte before the buffer's first.
\<close>

definition is_eof :: "url_parser_context \<Rightarrow> bool" where
  "is_eof ctx = (it ctx = int (length (view ctx)))"

definition increment :: "url_parser_context \<Rightarrow> url_parser_context" where
  "increment ctx = ctx\<lparr>it := it ctx + 1\<rparr>"

definition decrement :: "url_parser_context \<Rightarrow> url_parser_context" where
  "decrement ctx = ctx\<lparr>it := it ctx - 1\<rparr>"

definition reset :: "url_parser_context \<Rightarrow> url_parser_context" where
  "reset ctx = ctx\<lparr>it := 0\<rparr>"

definition restart_from_buffer :: "url_parser_context \<Rightarrow> url_parser_context" where
  "restart_from_buffer ctx = ctx\<lparr>it := it ctx - int (length (buffer ctx)) - 1\<rparr>"

text \<open>
  \<^verbatim>\<open>*context.it\<close>, as the driver reads it. At \<^verbatim>\<open>it == end\<close> the read is the terminator
  of the \<^verbatim>\<open>std::string\<close> under the view; \<open>None\<close> is a read outside the string.
\<close>

definition deref :: "url_parser_context \<Rightarrow> char option" where
  "deref ctx =
     (if 0 \<le> it ctx \<and> it ctx < int (length (view ctx)) then Some (view ctx ! nat (it ctx))
      else if it ctx = int (length (view ctx)) then Some (CHR 0x00)
      else None)"

text \<open>The range \<^verbatim>\<open>[it, end(view))\<close>; \<open>None\<close> when \<^verbatim>\<open>it\<close> is outside the view.\<close>

definition remaining :: "url_parser_context \<Rightarrow> string option" where
  "remaining ctx =
     (if 0 \<le> it ctx \<and> it ctx \<le> int (length (view ctx)) then Some (drop (nat (it ctx)) (view ctx))
      else None)"

definition lookahead :: "url_parser_context \<Rightarrow> string \<Rightarrow> bool option" where
  "lookahead ctx chars =
     (case remaining ctx of None \<Rightarrow> None | Some rng \<Rightarrow> remaining_starts_with (CHR 0x00) rng chars)"

subsection \<open>Path helpers (lines 475-531)\<close>

definition is_single_dot_path_segment :: "string \<Rightarrow> bool" where
  "is_single_dot_path_segment segment =
     (let segment_lower = map tolower segment
      in segment_lower = ''.'' \<or> segment_lower = ''%2e'')"

definition is_double_dot_path_segment :: "string \<Rightarrow> bool" where
  "is_double_dot_path_segment segment =
     (let segment_lower = map tolower segment
      in segment_lower = ''..'' \<or> segment_lower = ''.%2e'' \<or> segment_lower = ''%2e.'' \<or>
         segment_lower = ''%2e%2e'')"

definition shorten_path :: "string \<Rightarrow> string list \<Rightarrow> string list" where
  "shorten_path sch p =
     (if p = [] then p
      else if sch = ''file'' \<and> length p = 1 \<and> is_windows_drive_letter (hd p) then p
      else butlast p)"

text \<open>\<^verbatim>\<open>is_url_code_point\<close> (lines 450-453), with the source's character list.\<close>

definition is_url_code_point :: "char \<Rightarrow> bool" where
  "is_url_code_point c = (isalnum c \<or> is_in c (''!$&'' @ [CHR 0x27] @ ''()*+,-./:/=?@_~''))"

text \<open>The escape sets the handlers pass to \<^verbatim>\<open>pct_encode_char\<close>.\<close>

definition userinfo_escape_set :: string where
  "userinfo_escape_set =
     [CHR '' '', CHR 0x22] @ ''<>'' @ [CHR 0x60] @ ''#?{}/:;=@['' @ [CHR 0x5C] @ '']^|''"

definition path_escape_set :: string where
  "path_escape_set = [CHR '' '', CHR 0x22] @ ''<>'' @ [CHR 0x60] @ ''#?{}''"

definition query_escape_set :: string where
  "query_escape_set = [CHR '' '', CHR 0x22] @ ''#<>''"

definition fragment_escape_set :: string where
  "fragment_escape_set = [CHR '' '', CHR 0x22] @ ''<>'' @ [CHR 0x60]"

section \<open>State handlers\<close>

text \<open>
  Each handler takes the context and the byte the driver read, and returns the action with
  the updated context. \<open>None\<close> is where the source leaves defined behaviour: \<^verbatim>\<open>value()\<close> of
  an empty optional, \<^verbatim>\<open>path[0]\<close> of an empty path, a lookahead outside the string.
\<close>

definition parse_scheme_start ::
  "url_parser_context \<Rightarrow> char \<Rightarrow> (url_parse_action \<times> url_parser_context) option" where
  "parse_scheme_start ctx c =
     (if isalpha c then
        Some (Increment, ctx\<lparr>buffer := buffer ctx @ [tolower c], state := Scheme\<rparr>)
      else if state_override ctx = None then
        Some (Continue, reset (ctx\<lparr>state := No_scheme\<rparr>))
      else Some (Fail, ctx\<lparr>validation_error := True\<rparr>))"

text \<open>The four checks of \<^verbatim>\<open>parse_scheme\<close> under a state override (lines 583-599).\<close>

definition scheme_override_fails :: "url_parser_context \<Rightarrow> bool" where
  "scheme_override_fails ctx =
     ((url_is_special (url ctx) \<and> \<not> is_special (buffer ctx)) \<or>
      (\<not> url_is_special (url ctx) \<and> is_special (buffer ctx)) \<or>
      ((includes_credentials (url ctx) \<or> port (url ctx) \<noteq> None) \<and> buffer ctx = ''file'') \<or>
      (scheme (url ctx) = ''file'' \<and> (host (url ctx) = None \<or> host (url ctx) = Some [])))"

definition parse_scheme ::
  "url_parser_context \<Rightarrow> char \<Rightarrow> (url_parse_action \<times> url_parser_context) option" where
  "parse_scheme ctx c =
     (if isalnum c \<or> is_in c ''+-.'' then
        Some (Increment, ctx\<lparr>buffer := buffer ctx @ [tolower c]\<rparr>)
      else if c = CHR '':'' then
        (if state_override ctx \<noteq> None \<and> scheme_override_fails ctx then Some (Fail, ctx)
         else
           (let ctx1 = ctx\<lparr>url := (url ctx)\<lparr>scheme := buffer ctx\<rparr>, buffer := []\<rparr>
            in if scheme (url ctx1) = ''file'' then
                 (case lookahead ctx1 ''//'' of
                    None \<Rightarrow> None
                  | Some found \<Rightarrow>
                      Some (Increment,
                            ctx1\<lparr>validation_error := (validation_error ctx1 \<or> \<not> found),
                                 state := File\<rparr>))
               else if url_is_special (url ctx1) \<and> base ctx1 \<noteq> None \<and>
                       scheme (the (base ctx1)) = scheme (url ctx1) then
                 Some (Increment, ctx1\<lparr>state := Special_relative_or_authority\<rparr>)
               else if url_is_special (url ctx1) then
                 Some (Increment, ctx1\<lparr>state := Special_authority_slashes\<rparr>)
               else
                 (case lookahead ctx1 ''/'' of
                    None \<Rightarrow> None
                  | Some True \<Rightarrow> Some (Increment, increment (ctx1\<lparr>state := Path_or_authority\<rparr>))
                  | Some False \<Rightarrow>
                      Some (Increment,
                            ctx1\<lparr>url := (url ctx1)\<lparr>cannot_be_a_base_url := True,
                                                   path := path (url ctx1) @ [[]]\<rparr>,
                                 state := Cannot_be_a_base_url_path\<rparr>))))
      else if state_override ctx = None then
        Some (Continue, reset (ctx\<lparr>buffer := [], state := No_scheme\<rparr>))
      else Some (Increment, ctx))"

definition parse_no_scheme ::
  "url_parser_context \<Rightarrow> char \<Rightarrow> (url_parse_action \<times> url_parser_context) option" where
  "parse_no_scheme ctx c =
     (case base ctx of
        None \<Rightarrow> Some (Fail, ctx\<lparr>validation_error := True\<rparr>)
      | Some b \<Rightarrow>
          if cannot_be_a_base_url b \<and> c \<noteq> CHR ''#'' then
            Some (Fail, ctx\<lparr>validation_error := True\<rparr>)
          else if cannot_be_a_base_url b \<and> c = CHR ''#'' then
            Some (Increment,
                  ctx\<lparr>url := (url ctx)\<lparr>scheme := scheme b, path := path b, query := query b,
                                      fragment := Some [], cannot_be_a_base_url := True\<rparr>,
                      state := Fragment\<rparr>)
          else if scheme b \<noteq> ''file'' then Some (Continue, reset (ctx\<lparr>state := Relative\<rparr>))
          else Some (Continue, reset (ctx\<lparr>state := File\<rparr>)))"

definition parse_special_relative_or_authority ::
  "url_parser_context \<Rightarrow> char \<Rightarrow> (url_parse_action \<times> url_parser_context) option" where
  "parse_special_relative_or_authority ctx c =
     (case (if c = CHR ''/'' then lookahead ctx ''/'' else Some False) of
        None \<Rightarrow> None
      | Some True \<Rightarrow> Some (Increment, (increment ctx)\<lparr>state := Special_authority_ignore_slashes\<rparr>)
      | Some False \<Rightarrow>
          Some (Increment, (decrement (ctx\<lparr>validation_error := True\<rparr>))\<lparr>state := Relative\<rparr>))"

definition parse_path_or_authority ::
  "url_parser_context \<Rightarrow> char \<Rightarrow> (url_parse_action \<times> url_parser_context) option" where
  "parse_path_or_authority ctx c =
     (if c = CHR ''/'' then Some (Increment, ctx\<lparr>state := Authority\<rparr>)
      else Some (Increment, decrement (ctx\<lparr>state := Path\<rparr>)))"

text \<open>The assignments \<^verbatim>\<open>parse_relative\<close> and \<^verbatim>\<open>parse_relative_slash\<close> repeat.\<close>

definition inherit_authority :: "url_record \<Rightarrow> url_record \<Rightarrow> url_record" where
  "inherit_authority b u =
     u\<lparr>username := username b, password := password b, host := host b, port := port b\<rparr>"

definition parse_relative ::
  "url_parser_context \<Rightarrow> char \<Rightarrow> (url_parse_action \<times> url_parser_context) option" where
  "parse_relative ctx c =
     (case base ctx of
        None \<Rightarrow> None
      | Some b \<Rightarrow>
          (let u = (url ctx)\<lparr>scheme := scheme b\<rparr>
           in if is_eof ctx then
                Some (Increment, ctx\<lparr>url := (inherit_authority b u)\<lparr>path := path b, query := query b\<rparr>\<rparr>)
              else if c = CHR ''/'' then
                Some (Increment, ctx\<lparr>url := u, state := Relative_slash\<rparr>)
              else if c = CHR ''?'' then
                Some (Increment,
                      ctx\<lparr>url := (inherit_authority b u)\<lparr>path := path b, query := Some []\<rparr>,
                          state := Query\<rparr>)
              else if c = CHR ''#'' then
                Some (Increment,
                      ctx\<lparr>url := (inherit_authority b u)\<lparr>path := path b, query := query b,
                                                         fragment := Some []\<rparr>,
                          state := Fragment\<rparr>)
              else if url_is_special u \<and> c = CHR 0x5C then
                Some (Increment, ctx\<lparr>url := u, validation_error := True, state := Relative_slash\<rparr>)
              else
                Some (Increment,
                      decrement
                        (ctx\<lparr>url := (inherit_authority b u)\<lparr>path := butlast (path b)\<rparr>,
                             state := Path\<rparr>))))"

definition parse_relative_slash ::
  "url_parser_context \<Rightarrow> char \<Rightarrow> (url_parse_action \<times> url_parser_context) option" where
  "parse_relative_slash ctx c =
     (if url_is_special (url ctx) \<and> (c = CHR ''/'' \<or> c = CHR 0x5C) then
        Some (Increment,
              ctx\<lparr>validation_error := (validation_error ctx \<or> c = CHR 0x5C),
                  state := Special_authority_ignore_slashes\<rparr>)
      else if c = CHR ''/'' then Some (Increment, ctx\<lparr>state := Authority\<rparr>)
      else
        (case base ctx of
           None \<Rightarrow> None
         | Some b \<Rightarrow>
             Some (Increment,
                   decrement (ctx\<lparr>url := inherit_authority b (url ctx), state := Path\<rparr>))))"

definition parse_special_authority_slashes ::
  "url_parser_context \<Rightarrow> char \<Rightarrow> (url_parse_action \<times> url_parser_context) option" where
  "parse_special_authority_slashes ctx c =
     (case (if c = CHR ''/'' then lookahead ctx ''/'' else Some False) of
        None \<Rightarrow> None
      | Some True \<Rightarrow> Some (Increment, (increment ctx)\<lparr>state := Special_authority_ignore_slashes\<rparr>)
      | Some False \<Rightarrow>
          Some (Increment,
                (decrement (ctx\<lparr>validation_error := True\<rparr>))\<lparr>state := Special_authority_ignore_slashes\<rparr>))"

definition parse_special_authority_ignore_slashes ::
  "url_parser_context \<Rightarrow> char \<Rightarrow> (url_parse_action \<times> url_parser_context) option" where
  "parse_special_authority_ignore_slashes ctx c =
     (if c \<noteq> CHR ''/'' \<and> c \<noteq> CHR 0x5C then Some (Increment, (decrement ctx)\<lparr>state := Authority\<rparr>)
      else Some (Increment, ctx\<lparr>validation_error := True\<rparr>))"

text \<open>The loop over the buffer at an \<^verbatim>\<open>@\<close> (lines 784-798).\<close>

fun authority_loop :: "string \<Rightarrow> url_parser_context \<Rightarrow> url_parser_context" where
  "authority_loop [] ctx = ctx"
| "authority_loop (ch # rest) ctx =
     (if ch = CHR '':'' \<and> \<not> password_token_seen_flag ctx then
        authority_loop rest (ctx\<lparr>password_token_seen_flag := True\<rparr>)
      else
        (let pct_encoded = pct_encode_char ch userinfo_escape_set
         in if password_token_seen_flag ctx then
              authority_loop rest
                (ctx\<lparr>url := (url ctx)\<lparr>password := password (url ctx) @ pct_encoded\<rparr>\<rparr>)
            else
              authority_loop rest
                (ctx\<lparr>url := (url ctx)\<lparr>username := username (url ctx) @ pct_encoded\<rparr>\<rparr>)))"

text \<open>
  The test the authority, host, port and path handlers share: EOF, a slash, a question
  mark, a hash, or a backslash in a special URL.
\<close>

definition at_authority_end :: "url_parser_context \<Rightarrow> char \<Rightarrow> bool" where
  "at_authority_end ctx c =
     ((is_eof ctx \<or> c = CHR ''/'' \<or> c = CHR ''?'' \<or> c = CHR ''#'') \<or>
      (url_is_special (url ctx) \<and> c = CHR 0x5C))"

definition parse_authority ::
  "url_parser_context \<Rightarrow> char \<Rightarrow> (url_parse_action \<times> url_parser_context) option" where
  "parse_authority ctx c =
     (if c = CHR ''@'' then
        (let ctx1 = ctx\<lparr>validation_error := True,
                       buffer := (if at_flag ctx then ''%40'' @ buffer ctx else buffer ctx),
                       at_flag := True\<rparr>
         in Some (Increment, (authority_loop (buffer ctx1) ctx1)\<lparr>buffer := []\<rparr>))
      else if at_authority_end ctx c then
        (if at_flag ctx \<and> buffer ctx = [] then Some (Fail, ctx\<lparr>validation_error := True\<rparr>)
         else Some (Increment, (restart_from_buffer ctx)\<lparr>state := Host, buffer := []\<rparr>))
      else Some (Increment, ctx\<lparr>buffer := buffer ctx @ [c]\<rparr>))"

definition parse_hostname ::
  "url_parser_context \<Rightarrow> char \<Rightarrow> (url_parse_action \<times> url_parser_context) option" where
  "parse_hostname ctx c =
     (if state_override ctx \<noteq> None \<and> scheme (url ctx) = ''file'' then
        Some (Increment, (decrement ctx)\<lparr>state := File_host\<rparr>)
      else if c = CHR '':'' \<and> \<not> square_braces_flag ctx then
        (if buffer ctx = [] then Some (Fail, ctx\<lparr>validation_error := True\<rparr>)
         else case parse_host (buffer ctx) False of
                None \<Rightarrow> Some (Fail, ctx)
              | Some h \<Rightarrow>
                  (let ctx1 = ctx\<lparr>url := (url ctx)\<lparr>host := Some h\<rparr>, buffer := [], state := Port\<rparr>
                   in if state_override ctx = Some Hostname then Some (Success, ctx1)
                      else Some (Increment, ctx1)))
      else if at_authority_end ctx c then
        (let ctx1 = decrement ctx
         in if url_is_special (url ctx1) \<and> buffer ctx1 = [] then
              Some (Fail, ctx1\<lparr>validation_error := True\<rparr>)
            else case parse_host (buffer ctx1) False of
                   None \<Rightarrow> Some (Fail, ctx1)
                 | Some h \<Rightarrow>
                     Some (Increment,
                           ctx1\<lparr>url := (url ctx1)\<lparr>host := Some h\<rparr>, buffer := [],
                                state := Path_start\<rparr>))
      else
        Some (Increment,
              ctx\<lparr>square_braces_flag :=
                    (if c = CHR ''['' then True
                     else if c = CHR '']'' then False
                     else square_braces_flag ctx),
                  buffer := buffer ctx @ [c]\<rparr>))"

text \<open>
  \<^verbatim>\<open>is_valid_port\<close> (lines 439-448): the whole string is converted, it is not empty, and
  the value is below \<^verbatim>\<open>std::numeric_limits<std::uint16_t>::max()\<close>, which is 65535.
\<close>

definition uint16_max :: nat where
  "uint16_max = 65535"

definition is_valid_port :: "string \<Rightarrow> bool" where
  "is_valid_port p =
     (let r = strtoul p 10
      in ul_consumed r = length p \<and> ul_consumed r \<noteq> 0 \<and> ul_value r < uint16_max)"

text \<open>
  \<^verbatim>\<open>parse_port\<close> (lines 867-903). The \<^verbatim>\<open>int\<close> from \<^verbatim>\<open>atoi\<close> is stored in an
  \<^verbatim>\<open>optional<std::uint16_t>\<close>: the conversion reduces it modulo \<open>2 ^ 16\<close>.
\<close>

definition parse_port ::
  "url_parser_context \<Rightarrow> char \<Rightarrow> (url_parse_action \<times> url_parser_context) option" where
  "parse_port ctx c =
     (if isdigit c then Some (Increment, ctx\<lparr>buffer := buffer ctx @ [c]\<rparr>)
      else if at_authority_end ctx c \<or> state_override ctx \<noteq> None then
        (if buffer ctx \<noteq> [] \<and> \<not> is_valid_port (buffer ctx) then
           Some (Fail, ctx\<lparr>validation_error := True\<rparr>)
         else
           (let ctx1 =
                  (if buffer ctx \<noteq> [] then
                     (let p = atoi (buffer ctx)
                      in ctx\<lparr>url := (url ctx)\<lparr>port :=
                                 (if is_default_port (scheme (url ctx)) p then None
                                  else Some (nat (p mod 65536)))\<rparr>,
                             buffer := []\<rparr>)
                   else ctx)
            in if state_override ctx \<noteq> None then Some (Success, ctx1)
               else Some (Increment, (decrement ctx1)\<lparr>state := Path_start\<rparr>)))
      else Some (Fail, ctx\<lparr>validation_error := True\<rparr>))"

definition parse_file ::
  "url_parser_context \<Rightarrow> char \<Rightarrow> (url_parse_action \<times> url_parser_context) option" where
  "parse_file ctx0 c =
     (let ctx = ctx0\<lparr>url := (url ctx0)\<lparr>scheme := ''file''\<rparr>\<rparr>
      in if c = CHR ''/'' \<or> c = CHR 0x5C then
           Some (Increment,
                 ctx\<lparr>validation_error := (validation_error ctx \<or> c = CHR 0x5C),
                     state := File_slash\<rparr>)
         else if base ctx \<noteq> None \<and> scheme (the (base ctx)) = ''file'' then
           (let b = the (base ctx)
            in if is_eof ctx then
                 Some (Increment,
                       ctx\<lparr>url := (url ctx)\<lparr>host := host b, path := path b, query := query b\<rparr>\<rparr>)
               else if c = CHR ''?'' then
                 Some (Increment,
                       ctx\<lparr>url := (url ctx)\<lparr>host := host b, path := path b, query := Some []\<rparr>,
                           state := Query\<rparr>)
               else if c = CHR ''#'' then
                 Some (Increment,
                       ctx\<lparr>url := (url ctx)\<lparr>host := host b, path := path b, query := query b,
                                           fragment := Some []\<rparr>,
                           state := Fragment\<rparr>)
               else
                 (case remaining ctx of
                    None \<Rightarrow> None
                  | Some rng \<Rightarrow>
                      (let ctx1 =
                             (if \<not> is_windows_drive_letter rng then
                                ctx\<lparr>url := (url ctx)\<lparr>host := host b,
                                        path := shorten_path (scheme (url ctx)) (path b)\<rparr>\<rparr>
                              else ctx\<lparr>validation_error := True\<rparr>)
                       in Some (Increment, (decrement ctx1)\<lparr>state := Path\<rparr>))))
         else Some (Increment, (decrement ctx)\<lparr>state := Path\<rparr>))"

definition parse_file_slash ::
  "url_parser_context \<Rightarrow> char \<Rightarrow> (url_parse_action \<times> url_parser_context) option" where
  "parse_file_slash ctx c =
     (if c = CHR ''/'' \<or> c = CHR 0x5C then
        Some (Increment,
              ctx\<lparr>validation_error := (validation_error ctx \<or> c = CHR 0x5C),
                  state := File_host\<rparr>)
      else
        (case (if base ctx \<noteq> None \<and> scheme (the (base ctx)) = ''file''
                 then map_option (\<lambda>rng. \<not> is_windows_drive_letter rng) (remaining ctx)
               else Some False) of
           None \<Rightarrow> None
         | Some inherit \<Rightarrow>
             (let ctx1 =
                    (if inherit then
                       (let b = the (base ctx)
                        in if path b \<noteq> [] \<and> is_windows_drive_letter (path b ! 0) then
                             ctx\<lparr>url := (url ctx)\<lparr>path := path (url ctx) @ [path b ! 0]\<rparr>\<rparr>
                           else ctx\<lparr>url := (url ctx)\<lparr>host := host b\<rparr>\<rparr>)
                     else ctx)
              in Some (Increment, decrement (ctx1\<lparr>state := Path\<rparr>)))))"

definition parse_file_host ::
  "url_parser_context \<Rightarrow> char \<Rightarrow> (url_parse_action \<times> url_parser_context) option" where
  "parse_file_host ctx c =
     (if is_eof ctx \<or> c = CHR ''/'' \<or> c = CHR 0x5C \<or> c = CHR ''?'' \<or> c = CHR ''#'' then
        (let ctx1 = decrement ctx
         in if state_override ctx1 = None \<and> is_windows_drive_letter (buffer ctx1) then
              Some (Increment, ctx1\<lparr>validation_error := True, state := Path\<rparr>)
            else if buffer ctx1 = [] then
              (let ctx2 = ctx1\<lparr>url := (url ctx1)\<lparr>host := Some []\<rparr>\<rparr>
               in if state_override ctx1 \<noteq> None then Some (Success, ctx2)
                  else Some (Increment, ctx2\<lparr>state := Path_start\<rparr>))
            else
              (case parse_host (buffer ctx1) (\<not> url_is_special (url ctx1)) of
                 None \<Rightarrow> Some (Fail, ctx1)
               | Some h \<Rightarrow>
                   (let ctx2 = ctx1\<lparr>url := (url ctx1)\<lparr>host := Some (if h = ''localhost'' then [] else h)\<rparr>\<rparr>
                    in if state_override ctx1 \<noteq> None then Some (Success, ctx2)
                       else Some (Increment, ctx2\<lparr>buffer := [], state := Path_start\<rparr>))))
      else Some (Increment, ctx\<lparr>buffer := buffer ctx @ [c]\<rparr>))"

definition parse_path_start ::
  "url_parser_context \<Rightarrow> char \<Rightarrow> (url_parse_action \<times> url_parser_context) option" where
  "parse_path_start ctx c =
     (if url_is_special (url ctx) then
        (let ctx1 = ctx\<lparr>validation_error := (validation_error ctx \<or> c = CHR 0x5C), state := Path\<rparr>
         in if c \<noteq> CHR ''/'' \<and> c \<noteq> CHR 0x5C then Some (Increment, decrement ctx1)
            else Some (Increment, ctx1))
      else if state_override ctx = None \<and> c = CHR ''?'' then
        Some (Increment, ctx\<lparr>url := (url ctx)\<lparr>query := Some []\<rparr>, state := Query\<rparr>)
      else if state_override ctx = None \<and> c = CHR ''#'' then
        Some (Increment, ctx\<lparr>url := (url ctx)\<lparr>fragment := Some []\<rparr>, state := Fragment\<rparr>)
      else if \<not> is_eof ctx then
        (if c \<noteq> CHR ''/'' then Some (Increment, decrement (ctx\<lparr>state := Path\<rparr>))
         else
           Some (Increment,
                 ctx\<lparr>state := Path, url := (url ctx)\<lparr>path := path (url ctx) @ [buffer ctx]\<rparr>\<rparr>))
      else Some (Increment, ctx))"

text \<open>
  The \<^verbatim>\<open>std::deque\<close> loop of \<^verbatim>\<open>parse_path\<close> (lines 1077-1082): leading empty segments
  are dropped while more than one segment is left.
\<close>

fun pop_front_loop :: "string list \<Rightarrow> string list" where
  "pop_front_loop (p # q # rest) = (if p = [] then pop_front_loop (q # rest) else p # q # rest)"
| "pop_front_loop ps = ps"

text \<open>
  \<^verbatim>\<open>parse_path\<close> (lines 1045-1099), split at its statements: the segment that the buffer
  holds is applied to the path, the buffer is cleared, a file URL loses its leading empty
  segments at the end of the path, and a question mark or hash changes the state.
\<close>

definition is_slash :: "url_parser_context \<Rightarrow> char \<Rightarrow> bool" where
  "is_slash ctx c = (c = CHR ''/'' \<or> (url_is_special (url ctx) \<and> c = CHR 0x5C))"

definition path_push_segment :: "url_parser_context \<Rightarrow> char \<Rightarrow> url_parser_context" where
  "path_push_segment ctx c =
     (if is_double_dot_path_segment (buffer ctx) then
        (let p = shorten_path (scheme (url ctx)) (path (url ctx))
         in ctx\<lparr>url := (url ctx)\<lparr>path := (if is_slash ctx c then p else p @ [[]])\<rparr>\<rparr>)
      else if is_single_dot_path_segment (buffer ctx) \<and> \<not> is_slash ctx c then
        ctx\<lparr>url := (url ctx)\<lparr>path := path (url ctx) @ [[]]\<rparr>\<rparr>
      else if \<not> is_single_dot_path_segment (buffer ctx) then
        (let ctx1 =
               (if scheme (url ctx) = ''file'' \<and> path (url ctx) = [] \<and>
                   is_windows_drive_letter (buffer ctx) then
                  ctx\<lparr>validation_error := (validation_error ctx \<or> host (url ctx) \<noteq> Some []),
                      url := (url ctx)\<lparr>host := Some []\<rparr>,
                      buffer := (buffer ctx)[1 := CHR '':'']\<rparr>
                else ctx)
         in ctx1\<lparr>url := (url ctx1)\<lparr>path := path (url ctx1) @ [buffer ctx1]\<rparr>\<rparr>)
      else ctx)"

definition path_trim_file :: "url_parser_context \<Rightarrow> char \<Rightarrow> url_parser_context" where
  "path_trim_file ctx c =
     (if scheme (url ctx) = ''file'' \<and> (is_eof ctx \<or> c = CHR ''?'' \<or> c = CHR ''#'') then
        ctx\<lparr>validation_error :=
              (validation_error ctx \<or> pop_front_loop (path (url ctx)) \<noteq> path (url ctx)),
            url := (url ctx)\<lparr>path := pop_front_loop (path (url ctx))\<rparr>\<rparr>
      else ctx)"

definition path_next_state :: "url_parser_context \<Rightarrow> char \<Rightarrow> url_parser_context" where
  "path_next_state ctx c =
     (if c = CHR ''?'' then ctx\<lparr>url := (url ctx)\<lparr>query := Some []\<rparr>, state := Query\<rparr>
      else if c = CHR ''#'' then ctx\<lparr>url := (url ctx)\<lparr>fragment := Some []\<rparr>, state := Fragment\<rparr>
      else ctx)"

definition at_path_end :: "url_parser_context \<Rightarrow> char \<Rightarrow> bool" where
  "at_path_end ctx c =
     ((is_eof ctx \<or> c = CHR ''/'') \<or> (url_is_special (url ctx) \<and> c = CHR 0x5C) \<or>
      (state_override ctx = None \<and> (c = CHR ''?'' \<or> c = CHR ''#'')))"

definition parse_path ::
  "url_parser_context \<Rightarrow> char \<Rightarrow> (url_parse_action \<times> url_parser_context) option" where
  "parse_path ctx c =
     (if at_path_end ctx c then
        (let ctx1 = ctx\<lparr>validation_error :=
                         (validation_error ctx \<or> (url_is_special (url ctx) \<and> c = CHR 0x5C))\<rparr>;
             ctx2 = path_push_segment ctx1 c;
             ctx3 = ctx2\<lparr>buffer := []\<rparr>;
             ctx4 = path_trim_file ctx3 c
         in Some (Increment, path_next_state ctx4 c))
      else Some (Increment, ctx\<lparr>buffer := buffer ctx @ pct_encode_char c path_escape_set\<rparr>))"

text \<open>
  \<^verbatim>\<open>parse_cannot_be_a_base_url\<close> (lines 1101-1122). \<open>None\<close>: \<^verbatim>\<open>path[0]\<close> of an empty path,
  or \<^verbatim>\<open>is_pct_encoded\<close> on an iterator outside the view.
\<close>

definition parse_cannot_be_a_base_url ::
  "url_parser_context \<Rightarrow> char \<Rightarrow> (url_parse_action \<times> url_parser_context) option" where
  "parse_cannot_be_a_base_url ctx c =
     (if c = CHR ''?'' then
        Some (Increment, ctx\<lparr>url := (url ctx)\<lparr>query := Some []\<rparr>, state := Query\<rparr>)
      else if c = CHR ''#'' then
        Some (Increment, ctx\<lparr>url := (url ctx)\<lparr>fragment := Some []\<rparr>, state := Fragment\<rparr>)
      else
        (case (if \<not> is_eof ctx \<and> \<not> is_url_code_point c \<and> c \<noteq> CHR ''%'' then Some True
               else if c = CHR ''%'' then map_option (\<lambda>rng. \<not> is_pct_encoded rng) (remaining ctx)
               else Some False) of
           None \<Rightarrow> None
         | Some flagged \<Rightarrow>
             (let ctx1 = ctx\<lparr>validation_error := (validation_error ctx \<or> flagged)\<rparr>
              in if \<not> is_eof ctx1 then
                   (case path (url ctx1) of
                      [] \<Rightarrow> None
                    | p0 # ps \<Rightarrow>
                        Some (Increment,
                              ctx1\<lparr>url := (url ctx1)\<lparr>path := (p0 @ pct_encode_char c []) # ps\<rparr>\<rparr>))
                 else Some (Increment, ctx1))))"

text \<open>
  \<^verbatim>\<open>parse_query\<close> and \<^verbatim>\<open>parse_fragment\<close> (lines 1124-1141). \<open>None\<close>: \<^verbatim>\<open>value()\<close> of an
  empty optional.
\<close>

definition parse_query ::
  "url_parser_context \<Rightarrow> char \<Rightarrow> (url_parse_action \<times> url_parser_context) option" where
  "parse_query ctx c =
     (if state_override ctx = None \<and> c = CHR ''#'' then
        Some (Increment, ctx\<lparr>url := (url ctx)\<lparr>fragment := Some []\<rparr>, state := Fragment\<rparr>)
      else if \<not> is_eof ctx then
        (case query (url ctx) of
           None \<Rightarrow> None
         | Some q \<Rightarrow>
             Some (Increment,
                   ctx\<lparr>url := (url ctx)\<lparr>query := Some (q @ pct_encode_char c query_escape_set)\<rparr>\<rparr>))
      else Some (Increment, ctx))"

definition parse_fragment ::
  "url_parser_context \<Rightarrow> char \<Rightarrow> (url_parse_action \<times> url_parser_context) option" where
  "parse_fragment ctx c =
     (if c = CHR 0x00 then Some (Increment, ctx\<lparr>validation_error := True\<rparr>)
      else
        (case fragment (url ctx) of
           None \<Rightarrow> None
         | Some f \<Rightarrow>
             Some (Increment,
                   ctx\<lparr>url := (url ctx)\<lparr>fragment := Some (f @ pct_encode_char c fragment_escape_set)\<rparr>\<rparr>)))"

section \<open>The driver\<close>

text \<open>The map \<^verbatim>\<open>parse_funcs\<close> of \<^verbatim>\<open>basic_parse\<close> (url_parse.cpp, lines 29-113).\<close>

fun parse_funcs ::
  "url_state \<Rightarrow> url_parser_context \<Rightarrow> char \<Rightarrow> (url_parse_action \<times> url_parser_context) option" where
  "parse_funcs Scheme_start = parse_scheme_start"
| "parse_funcs Scheme = parse_scheme"
| "parse_funcs No_scheme = parse_no_scheme"
| "parse_funcs Special_relative_or_authority = parse_special_relative_or_authority"
| "parse_funcs Path_or_authority = parse_path_or_authority"
| "parse_funcs Relative = parse_relative"
| "parse_funcs Relative_slash = parse_relative_slash"
| "parse_funcs Special_authority_slashes = parse_special_authority_slashes"
| "parse_funcs Special_authority_ignore_slashes = parse_special_authority_ignore_slashes"
| "parse_funcs Authority = parse_authority"
| "parse_funcs Host = parse_hostname"
| "parse_funcs Hostname = parse_hostname"
| "parse_funcs Port = parse_port"
| "parse_funcs File = parse_file"
| "parse_funcs File_slash = parse_file_slash"
| "parse_funcs File_host = parse_file_host"
| "parse_funcs Path_start = parse_path_start"
| "parse_funcs Path = parse_path"
| "parse_funcs Cannot_be_a_base_url_path = parse_cannot_be_a_base_url"
| "parse_funcs Query = parse_query"
| "parse_funcs Fragment = parse_fragment"

text \<open>
  What \<^verbatim>\<open>basic_parse\<close> returns: the record, a parse error, or \<open>Undefined\<close> where a handler
  or the driver's own read left defined behaviour. The handlers of url_parser_context.cpp
  report failure as the action \<^verbatim>\<open>fail\<close>, the driver of url_parse.cpp takes a handler's
  failure from the error side of its \<^verbatim>\<open>expected\<close> result; in the model the action \<^verbatim>\<open>fail\<close>
  is that error branch (spec 4.6.2: "fail -> terminate, return parse error").
\<close>

datatype parse_result = Parsed url_record | Failed | Undefined

text \<open>
  The \<^verbatim>\<open>while (true)\<close> loop (url_parse.cpp, lines 117-139). The loop has no bound in the
  source, so it is a partial function: \<open>None\<close> is a run that never returns. The first
  argument is not in the source: it records, for every handler invocation, the state and
  the position of the iterator, in order.
\<close>

partial_function (option) basic_parse_loop ::
  "(url_state \<times> int) list \<Rightarrow> url_parser_context \<Rightarrow> (parse_result \<times> (url_state \<times> int) list) option" where
  "basic_parse_loop trace ctx =
     (case deref ctx of
        None \<Rightarrow> Some (Undefined, trace)
      | Some byte \<Rightarrow>
          (case parse_funcs (state ctx) ctx byte of
             None \<Rightarrow> Some (Undefined, trace @ [(state ctx, it ctx)])
           | Some (action, ctx') \<Rightarrow>
               (case action of
                  Fail \<Rightarrow> Some (Failed, trace @ [(state ctx, it ctx)])
                | Success \<Rightarrow> Some (Parsed (url ctx'), trace @ [(state ctx, it ctx)])
                | Continue \<Rightarrow> basic_parse_loop (trace @ [(state ctx, it ctx)]) ctx'
                | Increment \<Rightarrow>
                    if is_eof ctx' then Some (Parsed (url ctx'), trace @ [(state ctx, it ctx)])
                    else basic_parse_loop (trace @ [(state ctx, it ctx)]) (increment ctx'))))"

declare basic_parse_loop.simps [code]

definition basic_parse ::
  "string \<Rightarrow> url_record option \<Rightarrow> url_record option \<Rightarrow> url_state option \<Rightarrow>
   (parse_result \<times> (url_state \<times> int) list) option" where
  "basic_parse s b u override = basic_parse_loop [] (url_parser_context_init s b u override)"

text \<open>
  \<^verbatim>\<open>parse\<close> (url_parse.cpp, lines 143-161): every branch after \<^verbatim>\<open>basic_parse\<close> returns
  its result unchanged.
\<close>

definition parse :: "string \<Rightarrow> url_record option \<Rightarrow> parse_result option" where
  "parse s b = map_option fst (basic_parse s b None None)"

section \<open>Serializer\<close>

text \<open>
  Modelled from the spec: \<^verbatim>\<open>serialize\<close> (url_serialize.hpp is not among the sources).
  Spec 4.5: "Emit, in order: scheme, ":", then if host present: "//", username (if
  credentials) + (":" password if password nonempty) + "@", host string, (":" port if
  present); else if scheme="file": "//"; path: "/" + join(path, "/") for hierarchical
  URLs; for cannot-be-a-base, path[0] with no leading slash; if query present: "?" + query;
  if fragment present: "#" + fragment."
\<close>

definition serialize :: "url_record \<Rightarrow> string" where
  "serialize u =
     scheme u @ '':'' @
     (case host u of
        Some h \<Rightarrow>
          ''//'' @
          (if includes_credentials u
             then username u @ (if password u \<noteq> [] then '':'' @ password u else []) @ ''@''
           else []) @
          h @ (case port u of Some p \<Rightarrow> '':'' @ to_decimal p | None \<Rightarrow> [])
      | None \<Rightarrow> if scheme u = ''file'' then ''//'' else []) @
     (if cannot_be_a_base_url u then (case path u of [] \<Rightarrow> [] | p0 # _ \<Rightarrow> p0)
      else ''/'' @ join ''/'' (path u)) @
     (case query u of Some q \<Rightarrow> ''?'' @ q | None \<Rightarrow> []) @
     (case fragment u of Some f \<Rightarrow> ''#'' @ f | None \<Rightarrow> [])"

section \<open>Predicates of the properties\<close>

text \<open>
  The failure condition of spec 4.2 in the spec's own words: "If any non-last exceeds 255
  -> fail. If the last exceeds 256^(5-n) where n=len(numbers) -> fail."
\<close>

definition spec_ipv4_fails :: "nat list \<Rightarrow> bool" where
  "spec_ipv4_fails numbers =
     (list_ex (\<lambda>number. 255 < number) (butlast numbers) \<or>
      256 ^ (5 - length numbers) < last numbers)"

text \<open>
  A context in the cannot-be-a-base-URL path state, as \<^verbatim>\<open>parse_scheme\<close> leaves it after
  the scheme \<^verbatim>\<open>x:\<close>: the path holds one empty string.
\<close>

definition cannot_be_ctx :: "string \<Rightarrow> int \<Rightarrow> url_parser_context" where
  "cannot_be_ctx s i =
     \<lparr>view = s, it = i, base = None,
      url = empty_url_record\<lparr>scheme := ''x'', path := [[]], cannot_be_a_base_url := True\<rparr>,
      state = Cannot_be_a_base_url_path, state_override = None, buffer = [], at_flag = False,
      square_braces_flag = False, password_token_seen_flag = False, validation_error = False\<rparr>"

text \<open>
  The invariant, for a run without a state override. Before the scheme is known and in the
  file states the record has no port, user name or password; the authority, host and port
  states are only entered with a scheme other than \<^verbatim>\<open>file\<close>; the relative states are only
  entered with a base whose scheme is not \<^verbatim>\<open>file\<close>.
\<close>

definition file_clean :: "url_record \<Rightarrow> bool" where
  "file_clean u = (port u = None \<and> username u = [] \<and> password u = [])"

definition file_good :: "url_record \<Rightarrow> bool" where
  "file_good u = (if scheme u = ''file'' then file_clean u else True)"

definition file_inv :: "url_parser_context \<Rightarrow> bool" where
  "file_inv ctx =
     (state_override ctx = None \<and>
      (if state ctx \<in> {Scheme_start, Scheme, No_scheme, File, File_slash, File_host}
         then file_clean (url ctx)
       else if state ctx = Special_relative_or_authority
         then base ctx \<noteq> None \<and> scheme (the (base ctx)) \<noteq> ''file'' \<and> scheme (url ctx) \<noteq> ''file''
       else if state ctx = Relative
         then base ctx \<noteq> None \<and> scheme (the (base ctx)) \<noteq> ''file'' \<and> file_good (url ctx)
       else if state ctx \<in> {Path_start, Path, Query, Fragment} then file_good (url ctx)
       else scheme (url ctx) \<noteq> ''file''))"







section \<open>Properties of the IPv4 numeric parser\<close>

lemma short_list_cases:
  assumes "xs \<noteq> []" and "length xs \<le> 4"
  obtains a where "xs = [a]" | a b where "xs = [a, b]"
    | a b c where "xs = [a, b, c]" | a b c d where "xs = [a, b, c, d]"
proof (cases xs)
  case Nil
  with assms show ?thesis by simp
next
  case c1: (Cons a r1)
  show ?thesis
  proof (cases r1)
    case Nil
    with c1 that show ?thesis by simp
  next
    case c2: (Cons b r2)
    show ?thesis
    proof (cases r2)
      case Nil
      with c1 c2 that show ?thesis by simp
    next
      case c3: (Cons c r3)
      show ?thesis
      proof (cases r3)
        case Nil
        with c1 c2 c3 that show ?thesis by simp
      next
        case c4: (Cons d r4)
        with c1 c2 c3 assms have "r4 = []" by simp
        with c1 c2 c3 c4 that show ?thesis by simp
      qed
    qed
  qed
qed

lemma ipv4_accumulate_sum:
  "ipv4_accumulate a k ns = a + (\<Sum>i<length ns. ns ! i * 256 ^ (3 - (k + i)))"
proof (induction ns arbitrary: a k)
  case Nil
  then show ?case by simp
next
  case (Cons n ns)
  have "(\<Sum>i<length (n # ns). (n # ns) ! i * 256 ^ (3 - (k + i))) =
        n * 256 ^ (3 - k) + (\<Sum>i<length ns. ns ! i * 256 ^ (3 - (k + 1 + i)))"
    using sum.lessThan_Suc_shift [of "\<lambda>i. (n # ns) ! i * 256 ^ (3 - (k + i))" "length ns"]
    by simp
  with Cons show ?case by simp
qed

lemma list_ex_butlast_nth:
  "list_ex P (butlast xs) = (\<exists>i<length xs - 1. P (xs ! i))"
  by (auto simp: list_ex_length nth_butlast)

lemma sum_lessThan_2: "(\<Sum>i<(2::nat). f i) = f 0 + (f 1 :: nat)"
  by (simp add: numeral_2_eq_2)

lemma sum_lessThan_3: "(\<Sum>i<(3::nat). f i) = f 0 + f 1 + (f 2 :: nat)"
  by (simp add: numeral_3_eq_3 numeral_2_eq_2)

lemma ipv4_value_bound:
  assumes "numbers \<noteq> []" and "length numbers \<le> 4"
    and "\<not> (\<exists>i<length numbers - 1. 255 < numbers ! i)"
    and "last numbers < 256 ^ (5 - length numbers)"
  shows "last numbers + (\<Sum>i<length numbers - 1. numbers ! i * 256 ^ (3 - i)) < (4294967296::nat)"
  using assms(1,2)
proof (cases numbers rule: short_list_cases)
  case (1 a)
  with assms show ?thesis by simp
next
  case (2 a b)
  with assms have "a \<le> 255" "b < 256 ^ 3" by (auto simp: not_less)
  with 2 show ?thesis by simp
next
  case (3 a b c)
  from 3 assms(3) have "\<not> 255 < numbers ! 0" "\<not> 255 < numbers ! 1" by auto
  with 3 have "a \<le> 255" "b \<le> 255" by simp_all
  moreover from 3 assms(4) have "c < 256 ^ 2" by simp
  ultimately show ?thesis using 3 by (simp add: sum_lessThan_2)
next
  case (4 a b c d)
  from 4 assms(3) have "\<not> 255 < numbers ! 0" "\<not> 255 < numbers ! 1" "\<not> 255 < numbers ! 2" by auto
  with 4 have "a \<le> 255" "b \<le> 255" "c \<le> 255" by simp_all
  moreover from 4 assms(4) have "d < 256" by simp
  ultimately show ?thesis using 4 by (simp add: sum_lessThan_3)
qed

text \<open>
  Claim C4, counterexample. The single number \<open>256 ^ 4\<close> does not exceed \<open>256 ^ (5 - 1)\<close>,
  so the spec's condition lets it pass; the code rejects it (line 345 compares with \<open>>=\<close>),
  and the whole input \<^verbatim>\<open>4294967296\<close> fails to parse as a host.
\<close>

theorem ipv4_last_number_at_limit:
  "ipv4_from_numbers [4294967296] = None \<and> \<not> spec_ipv4_fails [4294967296] \<and>
   parse_ipv4_address ''4294967296'' = None"
  by code_simp

text \<open>
  Claim C4, as amended. For a list of one to four numbers, \<^verbatim>\<open>parse_ipv4_address\<close> fails
  exactly when a number other than the last exceeds 255 or the last number is at least
  \<open>256 ^ (5 - n)\<close>. Otherwise the address value is the last number plus the sum of
  \<open>numbers[i] * 256 ^ (3 - i)\<close> over the others, it is below \<open>2 ^ 32\<close>, and the result is
  its four bytes in decimal, most significant first, separated by dots.
\<close>

theorem ipv4_from_numbers_correct:
  assumes "numbers \<noteq> []" and "length numbers \<le> 4"
  shows "(ipv4_from_numbers numbers = None) =
           ((\<exists>i<length numbers - 1. 255 < numbers ! i) \<or>
            256 ^ (5 - length numbers) \<le> last numbers) \<and>
         (ipv4_from_numbers numbers \<noteq> None \<longrightarrow>
           (let v = last numbers + (\<Sum>i<length numbers - 1. numbers ! i * 256 ^ (3 - i))
            in v < 2 ^ 32 \<and>
               ipv4_from_numbers numbers =
                 Some (to_decimal (v div 2 ^ 24 mod 256) @ ''.'' @ to_decimal (v div 2 ^ 16 mod 256) @
                       ''.'' @ to_decimal (v div 2 ^ 8 mod 256) @ ''.'' @ to_decimal (v mod 256))))"
proof -
  have fails: "(ipv4_from_numbers numbers = None) =
           ((\<exists>i<length numbers - 1. 255 < numbers ! i) \<or>
            256 ^ (5 - length numbers) \<le> last numbers)"
    using assms(1) by (simp add: ipv4_from_numbers_def list_ex_butlast_nth)
  have "ipv4_accumulate (last numbers) 0 (butlast numbers) =
        last numbers + (\<Sum>i<length numbers - 1. numbers ! i * 256 ^ (3 - i))"
    by (simp add: ipv4_accumulate_sum nth_butlast)
  moreover have "ipv4_from_numbers numbers \<noteq> None \<Longrightarrow>
        last numbers + (\<Sum>i<length numbers - 1. numbers ! i * 256 ^ (3 - i)) < 2 ^ 32"
    using ipv4_value_bound [OF assms] fails by (simp add: not_le)
  ultimately show ?thesis
    using fails assms(1)
    by (auto simp: Let_def ipv4_from_numbers_def ipv4_to_string_def list_ex_butlast_nth)
qed

theorem ipv4_from_numbers_witness:
  "ipv4_from_numbers [127, 1] = Some ''127.0.0.1'' \<and>
   ipv4_from_numbers [1, 2, 3, 256] = None \<and> ipv4_from_numbers [256, 1] = None"
  using ipv4_from_numbers_correct [of "[127, 1]"] ipv4_from_numbers_correct [of "[1, 2, 3, 256]"]
    ipv4_from_numbers_correct [of "[256, 1]"]
  by (simp add: Let_def to_decimal.simps digit_char_def)

text \<open>
  Claim C10. When the dot-split of the input has an empty part anywhere but in the last
  position, \<^verbatim>\<open>parse_ipv4_address\<close> returns the input itself: neither a failure nor an
  IPv4 address. Only one trailing empty part is dropped before the parts are parsed.
\<close>

lemma parse_parts_empty_part: "[] \<in> set parts \<Longrightarrow> parse_parts parts = None"
  by (induction parts) (auto split: option.splits)

theorem parse_ipv4_address_empty_part:
  assumes "i + 1 < length (split_parts s)" and "split_parts s ! i = []"
  shows "parse_ipv4_address s = Some s"
proof -
  define parts where
    "parts = (if last (split_parts s) = [] \<and> 1 < length (split_parts s)
              then butlast (split_parts s) else split_parts s)"
  have "i < length parts" using assms(1) by (auto simp: parts_def)
  moreover have "parts ! i = []" using assms by (simp add: parts_def nth_butlast)
  ultimately have "[] \<in> set parts" by (metis nth_mem)
  then have "parse_parts parts = None" by (rule parse_parts_empty_part)
  then show ?thesis
    unfolding parse_ipv4_address_def Let_def parts_def by (auto split: if_splits)
qed

theorem parse_ipv4_address_empty_part_witness:
  "split_parts ''1..2'' = [''1'', [], ''2''] \<and> parse_ipv4_address ''1..2'' = Some ''1..2'' \<and>
   split_parts ''.5'' = [[], ''5''] \<and> parse_ipv4_address ''.5'' = Some ''.5''"
proof -
  have a: "split_parts ''1..2'' = [''1'', [], ''2'']" and b: "split_parts ''.5'' = [[], ''5'']"
    by (simp_all add: split_parts_def)
  show ?thesis
    using parse_ipv4_address_empty_part [of 1 "''1..2''"]
      parse_ipv4_address_empty_part [of 0 "''.5''"] a b
    by simp
qed

text \<open>
  Claim C3, at the input \<^verbatim>\<open>1a\<close>. The part is decimal and holds a character that is no
  decimal digit, yet \<^verbatim>\<open>std::stoul\<close> converts the leading digit and ignores the rest:
  the part has the value 1 and the host becomes the IPv4 address 0.0.0.1 instead of the
  domain \<^verbatim>\<open>1a\<close>.
\<close>

theorem parse_ipv4_number_trailing_characters:
  "parse_ipv4_number ''1a'' = Some 1 \<and> parse_ipv4_address ''1a'' = Some ''0.0.0.1'' \<and>
   map_option (\<lambda>r. case r of Parsed u \<Rightarrow> host u | _ \<Rightarrow> None) (parse ''http://1a/'' None) =
     Some (Some ''0.0.0.1'')"
  by code_simp

section \<open>Properties of the port state\<close>

text \<open>
  Claim C2, at the input \<^verbatim>\<open>http://h:65535/\<close>. The value 65535 is below \<open>2 ^ 16\<close>, and the
  code rejects it: \<^verbatim>\<open>is_valid_port\<close> asks for a value below 65535. The value 65534 is
  the largest that is accepted.
\<close>

theorem port_65535_rejected:
  "is_valid_port ''65535'' = False \<and> is_valid_port ''65534'' = True \<and>
   parse ''http://h:65535/'' None = Some Failed \<and>
   map_option (\<lambda>r. case r of Parsed u \<Rightarrow> port u | _ \<Rightarrow> None) (parse ''http://h:65534/'' None) =
     Some (Some 65534)"
  by code_simp

section \<open>Properties of the path states\<close>

lemma deref_remaining:
  assumes "deref ctx = Some c" and "\<not> is_eof ctx"
  shows "\<exists>rng. remaining ctx = Some (c # rng)"
proof -
  from assms have r: "0 \<le> it ctx" "it ctx < int (length (view ctx))" "c = view ctx ! nat (it ctx)"
    by (auto simp: deref_def is_eof_def split: if_splits)
  then have "drop (nat (it ctx)) (view ctx) = c # drop (Suc (nat (it ctx))) (view ctx)"
    by (simp add: Cons_nth_drop_Suc)
  with r show ?thesis by (simp add: remaining_def)
qed

text \<open>
  Claim C7, counterexample. In \<^verbatim>\<open>x:%zz\<close> the byte at index 2 is a percent sign that no
  two hex digits follow. The claim sets no validation error for a percent sign; the code
  sets it (line 1112).
\<close>

theorem percent_sign_sets_validation_error:
  "deref (cannot_be_ctx ''x:%zz'' 2) = Some CHR ''%'' \<and> \<not> is_eof (cannot_be_ctx ''x:%zz'' 2) \<and>
   \<not> validation_error (cannot_be_ctx ''x:%zz'' 2) \<and>
   map_option (\<lambda>r. validation_error (snd r))
     (parse_cannot_be_a_base_url (cannot_be_ctx ''x:%zz'' 2) CHR ''%'') = Some True"
  by code_simp

text \<open>
  Claim C7, as amended. In the cannot-be-a-base-URL path state, for the byte \<open>c\<close> under the
  iterator, not at EOF and other than a question mark and a hash (which change the state
  and are not appended): the handler returns \<^verbatim>\<open>increment\<close>; \<open>c\<close>, percent-encoded with no
  escape set, is appended to \<^verbatim>\<open>path[0]\<close> whatever the byte; \<^verbatim>\<open>validation_error\<close> is never
  cleared; and for an ASCII byte other than the semicolon it is set exactly when \<open>c\<close> is a
  percent sign that no two hex digits follow, or \<open>c\<close> is no percent sign, no ASCII
  alphanumeric and none of \<^verbatim>\<open>!$&'()*+,-./:=?@_~\<close>. What the flag becomes for a semicolon
  and for a byte above 0x7F is left open.
\<close>

theorem parse_cannot_be_a_base_url_byte:
  assumes "deref ctx = Some c" and "\<not> is_eof ctx"
    and "c \<noteq> CHR ''?''" and "c \<noteq> CHR ''#''"
    and "path (url ctx) = p0 # ps"
  shows "\<exists>rng v. remaining ctx = Some (c # rng) \<and>
           parse_cannot_be_a_base_url ctx c =
             Some (Increment,
                   ctx\<lparr>validation_error := v,
                       url := (url ctx)\<lparr>path := (p0 @ pct_encode_char c []) # ps\<rparr>\<rparr>) \<and>
           (validation_error ctx \<longrightarrow> v) \<and>
           ((of_char c :: nat) \<le> 0x7F \<and> c \<noteq> CHR '';'' \<longrightarrow>
              v = (validation_error ctx \<or>
                   (if c = CHR ''%''
                      then \<not> (case rng of h # l # _ \<Rightarrow> isxdigit h \<and> isxdigit l | _ \<Rightarrow> False)
                    else \<not> (isalnum c \<or> c \<in> set (''!$&'' @ [CHR 0x27] @ ''()*+,-./:=?@_~'')))))"
proof -
  from deref_remaining [OF assms(1,2)] obtain rng where r: "remaining ctx = Some (c # rng)" by blast
  define flagged where
    "flagged = (if \<not> is_url_code_point c \<and> c \<noteq> CHR ''%'' then True
                else if c = CHR ''%'' then \<not> is_pct_encoded (c # rng) else False)"
  have res: "parse_cannot_be_a_base_url ctx c =
             Some (Increment,
                   ctx\<lparr>validation_error := (validation_error ctx \<or> flagged),
                       url := (url ctx)\<lparr>path := (p0 @ pct_encode_char c []) # ps\<rparr>\<rparr>)"
    using r assms(2,3,4,5) by (auto simp: parse_cannot_be_a_base_url_def flagged_def is_eof_def)
  have ucp: "c \<noteq> CHR '';'' \<Longrightarrow>
      is_url_code_point c = (isalnum c \<or> c \<in> set (''!$&'' @ [CHR 0x27] @ ''()*+,-./:=?@_~''))"
    by (auto simp: is_url_code_point_def is_in_def)
  have pe: "c = CHR ''%'' \<Longrightarrow>
      is_pct_encoded (c # rng) = (case rng of h # l # _ \<Rightarrow> isxdigit h \<and> isxdigit l | _ \<Rightarrow> False)"
    by (auto simp: is_pct_encoded_def split: list.splits)
  have np: "c = CHR ''%'' \<Longrightarrow> \<not> isalnum c"
    by (simp add: isalnum_def isalpha_def isupper_def islower_def isdigit_def)
  have fl: "c \<noteq> CHR '';'' \<Longrightarrow>
      flagged = (if c = CHR ''%''
                   then \<not> (case rng of h # l # _ \<Rightarrow> isxdigit h \<and> isxdigit l | _ \<Rightarrow> False)
                 else \<not> (isalnum c \<or> c \<in> set (''!$&'' @ [CHR 0x27] @ ''()*+,-./:=?@_~'')))"
    using ucp pe np by (auto simp: flagged_def)
  show ?thesis
    using r res fl by (intro exI [of _ rng] exI [of _ "validation_error ctx \<or> flagged"]) simp
qed

theorem parse_cannot_be_a_base_url_byte_witness:
  "parse_cannot_be_a_base_url (cannot_be_ctx ''x:%zz'' 2) CHR ''%'' =
     Some (Increment,
           (cannot_be_ctx ''x:%zz'' 2)
             \<lparr>validation_error := True,
              url := (url (cannot_be_ctx ''x:%zz'' 2))\<lparr>path := [''%'']\<rparr>\<rparr>) \<and>
   parse_cannot_be_a_base_url (cannot_be_ctx ''x:a'' 2) CHR ''a'' =
     Some (Increment,
           (cannot_be_ctx ''x:a'' 2)
             \<lparr>validation_error := False,
              url := (url (cannot_be_ctx ''x:a'' 2))\<lparr>path := [''a'']\<rparr>\<rparr>)"
proof -
  have d1: "deref (cannot_be_ctx ''x:%zz'' 2) = Some CHR ''%''"
    and e1: "\<not> is_eof (cannot_be_ctx ''x:%zz'' 2)"
    and p1: "path (url (cannot_be_ctx ''x:%zz'' 2)) = [] # []"
    and r1: "remaining (cannot_be_ctx ''x:%zz'' 2) = Some ''%zz''"
    and v1: "validation_error (cannot_be_ctx ''x:%zz'' 2) = False"
    by code_simp+
  have d2: "deref (cannot_be_ctx ''x:a'' 2) = Some CHR ''a''"
    and e2: "\<not> is_eof (cannot_be_ctx ''x:a'' 2)"
    and p2: "path (url (cannot_be_ctx ''x:a'' 2)) = [] # []"
    and r2: "remaining (cannot_be_ctx ''x:a'' 2) = Some ''a''"
    and v2: "validation_error (cannot_be_ctx ''x:a'' 2) = False"
    by code_simp+
  have x: "\<not> isxdigit CHR ''z''" and a: "isalnum CHR ''a''"
    and q1: "pct_encode_char CHR ''%'' [] = ''%''" and q2: "pct_encode_char CHR ''a'' [] = ''a''"
    by code_simp+
  from parse_cannot_be_a_base_url_byte [OF d1 e1 _ _ p1] r1 v1 x q1
  have "parse_cannot_be_a_base_url (cannot_be_ctx ''x:%zz'' 2) CHR ''%'' =
     Some (Increment,
           (cannot_be_ctx ''x:%zz'' 2)
             \<lparr>validation_error := True,
              url := (url (cannot_be_ctx ''x:%zz'' 2))\<lparr>path := [''%'']\<rparr>\<rparr>)"
    by auto
  moreover from parse_cannot_be_a_base_url_byte [OF d2 e2 _ _ p2] r2 v2 a q2
  have "parse_cannot_be_a_base_url (cannot_be_ctx ''x:a'' 2) CHR ''a'' =
     Some (Increment,
           (cannot_be_ctx ''x:a'' 2)
             \<lparr>validation_error := False,
              url := (url (cannot_be_ctx ''x:a'' 2))\<lparr>path := [''a'']\<rparr>\<rparr>)"
    by auto
  ultimately show ?thesis by simp
qed

text \<open>
  Claim C6, at the input \<^verbatim>\<open>file:///C:abc/..\<close>. The path is the single segment \<^verbatim>\<open>C:abc\<close>,
  which is no Windows drive letter (spec: a "two-character sequence"), so the double-dot
  segment should pop it. \<^verbatim>\<open>is_windows_drive_letter\<close> only looks at the first two bytes
  of the segment, \<^verbatim>\<open>shorten_path\<close> leaves the path as it is, and the segment survives.
\<close>

theorem shorten_path_keeps_long_segment:
  "shorten_path ''file'' [''C:abc''] = [''C:abc''] \<and>
   map_option (\<lambda>r. case r of Parsed u \<Rightarrow> path u | _ \<Rightarrow> []) (parse ''file:///C:abc/..'' None) =
     Some [''C:abc'', []]"
  by code_simp

section \<open>Round trip\<close>

text \<open>
  Claim C1, at the input \<^verbatim>\<open>foo://h/a\<close>. In the path-start state a slash of a non-special
  URL pushes the empty buffer onto the path (line 1038), so the path of the record is
  \<open>[[], ''a'']\<close>. The serialization is \<^verbatim>\<open>foo://h//a\<close>, and parsing that gives a record
  with the path \<open>[[], [], ''a'']\<close>: the round trip does not return the record.
\<close>

theorem round_trip_fails:
  "parse ''foo://h/a'' None =
     Some (Parsed \<lparr>scheme = ''foo'', username = [], password = [], host = Some ''h'', port = None,
                   path = [[], ''a''], query = None, fragment = None,
                   cannot_be_a_base_url = False\<rparr>) \<and>
   serialize \<lparr>scheme = ''foo'', username = [], password = [], host = Some ''h'', port = None,
              path = [[], ''a''], query = None, fragment = None,
              cannot_be_a_base_url = False\<rparr> = ''foo://h//a'' \<and>
   parse ''foo://h//a'' None =
     Some (Parsed \<lparr>scheme = ''foo'', username = [], password = [], host = Some ''h'', port = None,
                   path = [[], [], ''a''], query = None, fragment = None,
                   cannot_be_a_base_url = False\<rparr>)"
  by code_simp

section \<open>Frame lemmas and the driver's invariant rule\<close>

lemmas iterator_defs = increment_def decrement_def reset_def restart_from_buffer_def

lemma authority_loop_frame:
  "scheme (url (authority_loop cs ctx)) = scheme (url ctx) \<and>
   state (authority_loop cs ctx) = state ctx \<and>
   state_override (authority_loop cs ctx) = state_override ctx \<and>
   base (authority_loop cs ctx) = base ctx \<and>
   view (authority_loop cs ctx) = view ctx \<and>
   it (authority_loop cs ctx) = it ctx \<and>
   buffer (authority_loop cs ctx) = buffer ctx \<and>
   path (url (authority_loop cs ctx)) = path (url ctx) \<and>
   query (url (authority_loop cs ctx)) = query (url ctx) \<and>
   fragment (url (authority_loop cs ctx)) = fragment (url ctx)"
  by (induction cs ctx rule: authority_loop.induct) (simp_all add: Let_def)

lemma path_push_segment_frame:
  "scheme (url (path_push_segment ctx c)) = scheme (url ctx)"
  "port (url (path_push_segment ctx c)) = port (url ctx)"
  "username (url (path_push_segment ctx c)) = username (url ctx)"
  "password (url (path_push_segment ctx c)) = password (url ctx)"
  "query (url (path_push_segment ctx c)) = query (url ctx)"
  "fragment (url (path_push_segment ctx c)) = fragment (url ctx)"
  "state (path_push_segment ctx c) = state ctx"
  "state_override (path_push_segment ctx c) = state_override ctx"
  "it (path_push_segment ctx c) = it ctx"
  "view (path_push_segment ctx c) = view ctx"
  "base (path_push_segment ctx c) = base ctx"
  by (simp_all add: path_push_segment_def Let_def)

lemma path_trim_file_frame:
  "scheme (url (path_trim_file ctx c)) = scheme (url ctx)"
  "port (url (path_trim_file ctx c)) = port (url ctx)"
  "username (url (path_trim_file ctx c)) = username (url ctx)"
  "password (url (path_trim_file ctx c)) = password (url ctx)"
  "query (url (path_trim_file ctx c)) = query (url ctx)"
  "fragment (url (path_trim_file ctx c)) = fragment (url ctx)"
  "state (path_trim_file ctx c) = state ctx"
  "state_override (path_trim_file ctx c) = state_override ctx"
  "it (path_trim_file ctx c) = it ctx"
  "view (path_trim_file ctx c) = view ctx"
  "base (path_trim_file ctx c) = base ctx"
  "buffer (path_trim_file ctx c) = buffer ctx"
  by (simp_all add: path_trim_file_def)

lemma path_next_state_frame:
  "scheme (url (path_next_state ctx c)) = scheme (url ctx)"
  "port (url (path_next_state ctx c)) = port (url ctx)"
  "username (url (path_next_state ctx c)) = username (url ctx)"
  "password (url (path_next_state ctx c)) = password (url ctx)"
  "state (path_next_state ctx c) =
     (if c = CHR ''?'' then Query else if c = CHR ''#'' then Fragment else state ctx)"
  "query (url (path_next_state ctx c)) = (if c = CHR ''?'' then Some [] else query (url ctx))"
  "fragment (url (path_next_state ctx c)) =
     (if c = CHR ''?'' then fragment (url ctx) else if c = CHR ''#'' then Some [] else fragment (url ctx))"
  "state_override (path_next_state ctx c) = state_override ctx"
  "it (path_next_state ctx c) = it ctx"
  "view (path_next_state ctx c) = view ctx"
  "base (path_next_state ctx c) = base ctx"
  "buffer (path_next_state ctx c) = buffer ctx"
  by (simp_all add: path_next_state_def)

lemmas path_frames = path_push_segment_frame path_trim_file_frame path_next_state_frame

text \<open>
  An invariant of the contexts that every handler and \<^verbatim>\<open>increment\<close> preserve holds of
  the context whose record a returning run hands out.
\<close>

lemma basic_parse_loop_invariant:
  assumes step: "\<And>ctx c. I ctx \<Longrightarrow> pred_option (\<lambda>r. I (snd r)) (parse_funcs (state ctx) ctx c)"
    and incr: "\<And>ctx. I ctx \<Longrightarrow> I (increment ctx)"
    and run: "basic_parse_loop trace ctx = Some res"
    and init: "I ctx"
  shows "case fst res of Parsed u \<Rightarrow> (\<exists>ctx'. I ctx' \<and> u = url ctx') | _ \<Rightarrow> True"
proof -
  let ?G = "\<lambda>res. case fst res of Parsed u \<Rightarrow> (\<exists>ctx'. I ctx' \<and> u = url ctx') | _ \<Rightarrow> True"
  have "I ctx \<longrightarrow> ?G res"
  proof (rule basic_parse_loop.raw_induct [where P = "\<lambda>trace ctx res. I ctx \<longrightarrow> ?G res", OF _ run])
    fix loop :: "(url_state \<times> int) list \<Rightarrow> url_parser_context \<Rightarrow> (parse_result \<times> (url_state \<times> int) list) option"
      and trace ctx res
    assume IH: "\<And>t c y. loop t c = Some y \<Longrightarrow> I c \<longrightarrow> ?G y"
      and body: "(case deref ctx of
        None \<Rightarrow> Some (Undefined, trace)
      | Some byte \<Rightarrow>
          (case parse_funcs (state ctx) ctx byte of
             None \<Rightarrow> Some (Undefined, trace @ [(state ctx, it ctx)])
           | Some (action, ctx') \<Rightarrow>
               (case action of
                  Fail \<Rightarrow> Some (Failed, trace @ [(state ctx, it ctx)])
                | Success \<Rightarrow> Some (Parsed (url ctx'), trace @ [(state ctx, it ctx)])
                | Continue \<Rightarrow> loop (trace @ [(state ctx, it ctx)]) ctx'
                | Increment \<Rightarrow>
                    if is_eof ctx' then Some (Parsed (url ctx'), trace @ [(state ctx, it ctx)])
                    else loop (trace @ [(state ctx, it ctx)]) (increment ctx')))) = Some res"
    show "I ctx \<longrightarrow> ?G res"
    proof
      assume i: "I ctx"
      show "?G res"
      proof (cases "deref ctx")
        case None
        with body show ?thesis by auto
      next
        case (Some byte)
        note d = this
        show ?thesis
        proof (cases "parse_funcs (state ctx) ctx byte")
          case None
          with body d show ?thesis by auto
        next
          case (Some r)
          obtain action ctx' where r: "r = (action, ctx')" by (cases r)
          from step [OF i, of byte] Some r have i': "I ctx'" by simp
          show ?thesis
          proof (cases action)
            case Increment
            show ?thesis
            proof (cases "is_eof ctx'")
              case True
              with body d Some r Increment i' show ?thesis by auto
            next
              case False
              with body d Some r Increment
              have "loop (trace @ [(state ctx, it ctx)]) (increment ctx') = Some res" by simp
              from IH [OF this] incr [OF i'] show ?thesis by simp
            qed
          next
            case Continue
            with body d Some r
            have "loop (trace @ [(state ctx, it ctx)]) ctx' = Some res" by simp
            from IH [OF this] i' show ?thesis by simp
          next
            case Success
            with body d Some r i' show ?thesis by auto
          next
            case Fail
            with body d Some r show ?thesis by auto
          qed
        qed
      qed
    qed
  qed
  with init show ?thesis by simp
qed

section \<open>File URLs carry no port and no credentials\<close>

lemmas file_inv_defs = file_inv_def file_clean_def file_good_def iterator_defs Let_def

lemma file_inv_good: "file_inv ctx \<Longrightarrow> file_good (url ctx)"
  by (auto simp: file_inv_def file_good_def split: if_splits)

lemma file_inv_increment: "file_inv (increment ctx) = file_inv ctx"
  by (simp add: file_inv_def increment_def)

lemma file_inv_Scheme_start:
  "file_inv ctx \<Longrightarrow> state ctx = Scheme_start \<Longrightarrow> pred_option (\<lambda>r. file_inv (snd r)) (parse_scheme_start ctx c)"
  by (simp add: parse_scheme_start_def file_inv_defs  )

lemma file_inv_Scheme:
  "file_inv ctx \<Longrightarrow> state ctx = Scheme \<Longrightarrow> pred_option (\<lambda>r. file_inv (snd r)) (parse_scheme ctx c)"
  by (simp add: parse_scheme_def file_inv_defs  split: option.split bool.split)

lemma file_inv_No_scheme:
  "file_inv ctx \<Longrightarrow> state ctx = No_scheme \<Longrightarrow> pred_option (\<lambda>r. file_inv (snd r)) (parse_no_scheme ctx c)"
  by (simp add: parse_no_scheme_def file_inv_defs  split: option.split)

lemma file_inv_Special_relative_or_authority:
  "file_inv ctx \<Longrightarrow> state ctx = Special_relative_or_authority \<Longrightarrow> pred_option (\<lambda>r. file_inv (snd r)) (parse_special_relative_or_authority ctx c)"
  by (simp add: parse_special_relative_or_authority_def file_inv_defs  split: option.split bool.split)

lemma file_inv_Path_or_authority:
  "file_inv ctx \<Longrightarrow> state ctx = Path_or_authority \<Longrightarrow> pred_option (\<lambda>r. file_inv (snd r)) (parse_path_or_authority ctx c)"
  by (simp add: parse_path_or_authority_def file_inv_defs  )

lemma file_inv_Relative:
  "file_inv ctx \<Longrightarrow> state ctx = Relative \<Longrightarrow> pred_option (\<lambda>r. file_inv (snd r)) (parse_relative ctx c)"
  by (cases "base ctx") (simp_all add: parse_relative_def file_inv_defs inherit_authority_def)

lemma file_inv_Relative_slash:
  "file_inv ctx \<Longrightarrow> state ctx = Relative_slash \<Longrightarrow> pred_option (\<lambda>r. file_inv (snd r)) (parse_relative_slash ctx c)"
  by (simp add: parse_relative_slash_def file_inv_defs inherit_authority_def split: option.split)

lemma file_inv_Special_authority_slashes:
  "file_inv ctx \<Longrightarrow> state ctx = Special_authority_slashes \<Longrightarrow> pred_option (\<lambda>r. file_inv (snd r)) (parse_special_authority_slashes ctx c)"
  by (simp add: parse_special_authority_slashes_def file_inv_defs  split: option.split bool.split)

lemma file_inv_Special_authority_ignore_slashes:
  "file_inv ctx \<Longrightarrow> state ctx = Special_authority_ignore_slashes \<Longrightarrow> pred_option (\<lambda>r. file_inv (snd r)) (parse_special_authority_ignore_slashes ctx c)"
  by (simp add: parse_special_authority_ignore_slashes_def file_inv_defs  )

lemma file_inv_Authority:
  "file_inv ctx \<Longrightarrow> state ctx = Authority \<Longrightarrow> pred_option (\<lambda>r. file_inv (snd r)) (parse_authority ctx c)"
  by (simp add: parse_authority_def file_inv_defs authority_loop_frame )

lemma file_inv_Host:
  "file_inv ctx \<Longrightarrow> state ctx = Host \<Longrightarrow> pred_option (\<lambda>r. file_inv (snd r)) (parse_hostname ctx c)"
  by (simp add: parse_hostname_def file_inv_defs  split: option.split)

lemma file_inv_Hostname:
  "file_inv ctx \<Longrightarrow> state ctx = Hostname \<Longrightarrow> pred_option (\<lambda>r. file_inv (snd r)) (parse_hostname ctx c)"
  by (simp add: parse_hostname_def file_inv_defs  split: option.split)

lemma file_inv_Port:
  "file_inv ctx \<Longrightarrow> state ctx = Port \<Longrightarrow> pred_option (\<lambda>r. file_inv (snd r)) (parse_port ctx c)"
  by (simp add: parse_port_def file_inv_defs  )

lemma file_inv_File:
  "file_inv ctx \<Longrightarrow> state ctx = File \<Longrightarrow> pred_option (\<lambda>r. file_inv (snd r)) (parse_file ctx c)"
  by (simp add: parse_file_def file_inv_defs  split: option.split)

lemma file_inv_File_slash:
  "file_inv ctx \<Longrightarrow> state ctx = File_slash \<Longrightarrow> pred_option (\<lambda>r. file_inv (snd r)) (parse_file_slash ctx c)"
  by (simp add: parse_file_slash_def file_inv_defs  split: option.split)

lemma file_inv_File_host:
  "file_inv ctx \<Longrightarrow> state ctx = File_host \<Longrightarrow> pred_option (\<lambda>r. file_inv (snd r)) (parse_file_host ctx c)"
  by (simp add: parse_file_host_def file_inv_defs  split: option.split)

lemma file_inv_Path_start:
  "file_inv ctx \<Longrightarrow> state ctx = Path_start \<Longrightarrow> pred_option (\<lambda>r. file_inv (snd r)) (parse_path_start ctx c)"
  by (auto simp: parse_path_start_def file_inv_defs)

lemma file_inv_Path:
  "file_inv ctx \<Longrightarrow> state ctx = Path \<Longrightarrow> pred_option (\<lambda>r. file_inv (snd r)) (parse_path ctx c)"
  by (auto simp: parse_path_def file_inv_def file_good_def file_clean_def Let_def path_frames)

lemma file_inv_Cannot_be_a_base_url_path:
  "file_inv ctx \<Longrightarrow> state ctx = Cannot_be_a_base_url_path \<Longrightarrow> pred_option (\<lambda>r. file_inv (snd r)) (parse_cannot_be_a_base_url ctx c)"
  by (simp add: parse_cannot_be_a_base_url_def file_inv_defs  split: option.split list.split)

lemma file_inv_Query:
  "file_inv ctx \<Longrightarrow> state ctx = Query \<Longrightarrow> pred_option (\<lambda>r. file_inv (snd r)) (parse_query ctx c)"
  by (auto simp: parse_query_def file_inv_defs split: option.split)

lemma file_inv_Fragment:
  "file_inv ctx \<Longrightarrow> state ctx = Fragment \<Longrightarrow> pred_option (\<lambda>r. file_inv (snd r)) (parse_fragment ctx c)"
  by (auto simp: parse_fragment_def file_inv_defs split: option.split)

lemma file_inv_step:
  "file_inv ctx \<Longrightarrow> pred_option (\<lambda>r. file_inv (snd r)) (parse_funcs (state ctx) ctx c)"
  by (cases "state ctx") (simp_all add: file_inv_Scheme_start file_inv_Scheme file_inv_No_scheme file_inv_Special_relative_or_authority file_inv_Path_or_authority file_inv_Relative file_inv_Relative_slash file_inv_Special_authority_slashes file_inv_Special_authority_ignore_slashes file_inv_Authority file_inv_Host file_inv_Hostname file_inv_Port file_inv_File file_inv_File_slash file_inv_File_host file_inv_Path_start file_inv_Path file_inv_Cannot_be_a_base_url_path file_inv_Query file_inv_Fragment)

lemma file_inv_init: "file_inv (url_parser_context_init s b None None)"
  by (simp add: url_parser_context_init_def file_inv_defs empty_url_record_def split: prod.split)

text \<open>
  Claim C8. For every input and every base: when \<^verbatim>\<open>parse\<close> succeeds and the scheme of the
  record is \<^verbatim>\<open>file\<close>, the record has no port and its user name and password are empty.
\<close>

theorem parse_file_has_no_port_or_credentials:
  assumes "parse s b = Some (Parsed r)" and "scheme r = ''file''"
  shows "port r = None \<and> username r = [] \<and> password r = []"
proof -
  from assms(1) obtain trace where
    run: "basic_parse_loop [] (url_parser_context_init s b None None) = Some (Parsed r, trace)"
    by (auto simp: parse_def basic_parse_def)
  have "case fst (Parsed r, trace) of Parsed u \<Rightarrow> (\<exists>ctx'. file_inv ctx' \<and> u = url ctx') | _ \<Rightarrow> True"
    by (rule basic_parse_loop_invariant [where I = file_inv, OF file_inv_step _ run file_inv_init])
       (simp_all add: file_inv_increment)
  then obtain ctx' where "file_inv ctx'" and "r = url ctx'" by auto
  then have "file_good r" by (simp add: file_inv_good)
  with assms(2) show ?thesis by (simp add: file_good_def file_clean_def)
qed

theorem parse_file_has_no_port_or_credentials_witness:
  "parse ''file://h/x'' None =
     Some (Parsed \<lparr>scheme = ''file'', username = [], password = [], host = Some ''h'', port = None,
                   path = [''x''], query = None, fragment = None, cannot_be_a_base_url = False\<rparr>) \<and>
   port \<lparr>scheme = ''file'', username = [], password = [], host = Some ''h'', port = None,
         path = [''x''], query = None, fragment = None, cannot_be_a_base_url = False\<rparr> = None"
proof -
  have e: "parse ''file://h/x'' None =
     Some (Parsed \<lparr>scheme = ''file'', username = [], password = [], host = Some ''h'', port = None,
                   path = [''x''], query = None, fragment = None, cannot_be_a_base_url = False\<rparr>)"
    by code_simp
  from parse_file_has_no_port_or_credentials [OF e] e show ?thesis by simp
qed

section \<open>Termination and the positions of the iterator\<close>







lemma lookahead_frame:
  "view ctx' = view ctx \<Longrightarrow> it ctx' = it ctx \<Longrightarrow> lookahead ctx' chars = lookahead ctx chars"
  by (simp add: lookahead_def remaining_def)



lemma remaining_Some: "0 \<le> it ctx \<Longrightarrow> it ctx \<le> int (length (view ctx)) \<Longrightarrow> remaining ctx \<noteq> None"
  by (simp add: remaining_def)


































end
